theory Spec2Isabelle
  imports Main
begin

section \<open>Notification relay: registry, normalizer, delivery, gateway and webhook\<close>

text \<open>
  A shallow embedding of the notification module: \<open>NotificationService\<close>
  (notification.service.ts), \<open>NotificationGateway\<close> (notification.gateway.ts) and
  \<open>WebhookController\<close> (webhook.controller.ts), with the DTOs and interfaces they use.

  Conventions of the embedding.
  \<^item> The service's \<open>connectedClients\<close> (a JavaScript \<open>Map\<close>) is a list of key/value
    pairs in insertion order; every function that reads or changes it takes it as an
    argument and returns the new one.
  \<^item> An exception is a value of type \<open>exn\<close>; a call that may throw returns \<open>exn + 'a\<close>.
  \<^item> Logging is left out: it has no effect on the values modelled.
  \<^item> The clock (\<open>new Date()\<close>), \<open>uuidv4()\<close>, \<open>Date.prototype.toISOString\<close> and
    \<open>JwtService.verify\<close> belong to the platform, not to this repository: they are
    parameters (\<open>now\<close>, \<open>uuid\<close>, \<open>toISOString\<close>, \<open>verify\<close>). All clock reads of one
    call see the same \<open>now\<close>.
  \<^item> Record fields carry a prefix (\<open>wh_\<close>, \<open>bn_\<close>, \<open>ws_\<close>) where the source uses the
    same field name in several types.
\<close>

subsection \<open>JavaScript values used by the code\<close>

type_synonym Date = int
  \<comment> \<open>milliseconds since the epoch\<close>

datatype exn =
    Error string
  | WebSocketNotificationException string

text \<open>Truthiness of an optional string: \<open>undefined\<close>/\<open>null\<close> and \<open>''\<close> are falsy.\<close>

definition truthy :: "string option \<Rightarrow> bool" where
  "truthy v = (case v of None \<Rightarrow> False | Some s \<Rightarrow> s \<noteq> [])"

text \<open>\<open>v || d\<close> for an optional string \<open>v\<close>.\<close>

definition or_default :: "string option \<Rightarrow> string \<Rightarrow> string" where
  "or_default v d = (case v of None \<Rightarrow> d | Some s \<Rightarrow> if s = [] then d else s)"

text \<open>
  \<open>Map.prototype.set\<close>: an existing key keeps its position and gets the new value, a new
  key is appended. \<open>Map.prototype.delete\<close> removes the key. \<open>Map.prototype.get\<close> is
  \<open>map_of\<close>, \<open>Map.prototype.keys\<close> is \<open>map fst\<close>, \<open>values\<close> is \<open>map snd\<close>, \<open>size\<close> is
  \<open>length\<close>.
\<close>

fun map_set :: "'k \<Rightarrow> 'v \<Rightarrow> ('k \<times> 'v) list \<Rightarrow> ('k \<times> 'v) list" where
  "map_set k v [] = [(k, v)]"
| "map_set k v (p # ps) = (if fst p = k then (k, v) # ps else p # map_set k v ps)"

definition map_delete :: "'k \<Rightarrow> ('k \<times> 'v) list \<Rightarrow> ('k \<times> 'v) list" where
  "map_delete k ps = filter (\<lambda>p. fst p \<noteq> k) ps"

text \<open>\<open>[...new Set(xs)]\<close>: the first occurrence of every element, in order.\<close>

definition unique :: "'a list \<Rightarrow> 'a list" where
  "unique xs = foldl (\<lambda>acc x. if x \<in> set acc then acc else acc @ [x]) [] xs"

subsection \<open>Interfaces and DTOs\<close>

record ConnectedClient =
  socketId :: string
  userId :: string
  connectedAt :: Date

type_synonym ClientMap = "(string \<times> ConnectedClient) list"

text \<open>
  \<open>WebhookNotificationDto\<close>. The optional fields are options. \<open>wh_priority\<close> is the
  value found at run time, a string: the decorator \<open>@IsIn(['low','normal','high'])\<close>
  belongs to the validation layer, which runs before the controller.
  \<open>'d\<close> is the opaque \<open>Record<string, any>\<close> of \<open>data\<close>.
\<close>

record 'd WebhookNotificationDto =
  wh_type :: string
  wh_message :: string
  wh_targetUsers :: "string list option"
  wh_data :: "'d option"
  wh_priority :: "string option"

record 'd BaseNotification =
  bn_id :: string
  bn_type :: string
  bn_message :: string
  bn_data :: "'d option"
  bn_priority :: string
  bn_timestamp :: Date
  bn_source :: string

record 'd WebSocketNotificationDto =
  ws_id :: string
  ws_type :: string
  ws_message :: string
  ws_data :: "'d option"
  ws_priority :: string
  ws_timestamp :: string
  ws_source :: string

subsection \<open>NotificationService: the registry\<close>

definition addClient :: "Date \<Rightarrow> string \<Rightarrow> string \<Rightarrow> ClientMap \<Rightarrow> ClientMap" where
  "addClient now uid sid cs =
     map_set sid \<lparr>socketId = sid, userId = uid, connectedAt = now\<rparr> cs"

definition removeClient :: "string \<Rightarrow> ClientMap \<Rightarrow> ClientMap" where
  "removeClient sid cs =
     (case map_of cs sid of
        Some client \<Rightarrow> map_delete sid cs
      | None \<Rightarrow> cs)"

definition getConnectedUsers :: "ClientMap \<Rightarrow> string list" where
  "getConnectedUsers cs = unique (map userId (map snd cs))"

definition getConnectedClients :: "ClientMap \<Rightarrow> ConnectedClient list" where
  "getConnectedClients cs = map snd cs"

definition getClientsByUserId :: "string \<Rightarrow> ClientMap \<Rightarrow> ConnectedClient list" where
  "getClientsByUserId uid cs = filter (\<lambda>client. userId client = uid) (map snd cs)"

definition isUserConnected :: "string \<Rightarrow> ClientMap \<Rightarrow> bool" where
  "isUserConnected uid cs = (length (getClientsByUserId uid cs) > 0)"

definition getConnectedClientsCount :: "ClientMap \<Rightarrow> nat" where
  "getConnectedClientsCount cs = length cs"

text \<open>
  What \<open>addClient\<close> and \<open>removeClient\<close> maintain: keys are unique (it is a \<open>Map\<close>) and
  every entry is stored under its own socket id.
\<close>

definition wf_clients :: "ClientMap \<Rightarrow> bool" where
  "wf_clients cs = (distinct (map fst cs) \<and> list_all (\<lambda>p. socketId (snd p) = fst p) cs)"

subsection \<open>NotificationService: normalizer and wire format\<close>

definition processWebhookNotification ::
  "string \<Rightarrow> Date \<Rightarrow> 'd WebhookNotificationDto \<Rightarrow> 'd BaseNotification" where
  "processWebhookNotification uuid now webhookNotification =
     \<lparr>bn_id = uuid,
      bn_type = wh_type webhookNotification,
      bn_message = wh_message webhookNotification,
      bn_data = wh_data webhookNotification,
      bn_priority = or_default (wh_priority webhookNotification) ''normal'',
      bn_timestamp = now,
      bn_source = ''webhook''\<rparr>"

definition transformToWebSocketDto ::
  "(Date \<Rightarrow> string) \<Rightarrow> 'd BaseNotification \<Rightarrow> 'd WebSocketNotificationDto" where
  "transformToWebSocketDto toISOString notification =
     \<lparr>ws_id = bn_id notification,
      ws_type = bn_type notification,
      ws_message = bn_message notification,
      ws_data = bn_data notification,
      ws_priority = bn_priority notification,
      ws_timestamp = toISOString (bn_timestamp notification),
      ws_source = bn_source notification\<rparr>"

subsection \<open>NotificationService: delivery\<close>

text \<open>
  The injected \<open>emitFunction\<close>. It is a closure: besides returning or throwing it may
  change the registry (the gateway's \<open>emitToSocket\<close> calls \<open>removeClient\<close>), so it takes
  the registry and returns the new one with its result.
\<close>

type_synonym 'd emitFunction =
  "string \<Rightarrow> 'd WebSocketNotificationDto \<Rightarrow> ClientMap \<Rightarrow> (exn + unit) \<times> ClientMap"

text \<open>
  The state of one delivery: the array \<open>successfulSocketIds\<close>, the registry, and a log
  of the calls made to \<open>emitFunction\<close> (what a Jest mock records), in call order.
\<close>

record 'd Delivery =
  successfulSocketIds :: "string list"
  emitCalls :: "(string \<times> 'd WebSocketNotificationDto) list"
  connectedClients :: ClientMap

text \<open>
  The body shared by the two \<open>forEach\<close> loops: \<open>try { emitFunction(...); push } catch { log }\<close>
  for every socket id of an array fixed before the loop starts.
\<close>

fun emitEach ::
  "'d emitFunction \<Rightarrow> 'd WebSocketNotificationDto \<Rightarrow> string list \<Rightarrow> 'd Delivery \<Rightarrow> 'd Delivery" where
  "emitEach emitFunction dto [] st = st"
| "emitEach emitFunction dto (sid # rest) st =
     (case emitFunction sid dto (connectedClients st) of
        (Inr u, cs') \<Rightarrow>
          emitEach emitFunction dto rest
            \<lparr>successfulSocketIds = successfulSocketIds st @ [sid],
             emitCalls = emitCalls st @ [(sid, dto)],
             connectedClients = cs'\<rparr>
      | (Inl error, cs') \<Rightarrow>
          emitEach emitFunction dto rest
            \<lparr>successfulSocketIds = successfulSocketIds st,
             emitCalls = emitCalls st @ [(sid, dto)],
             connectedClients = cs'\<rparr>)"

definition broadcastNotification ::
  "(Date \<Rightarrow> string) \<Rightarrow> 'd BaseNotification \<Rightarrow> 'd emitFunction \<Rightarrow> ClientMap \<Rightarrow> 'd Delivery" where
  "broadcastNotification toISOString notification emitFunction cs =
     (let allSocketIds = map fst cs;
          websocketNotification = transformToWebSocketDto toISOString notification
      in emitEach emitFunction websocketNotification allSocketIds
           \<lparr>successfulSocketIds = [], emitCalls = [], connectedClients = cs\<rparr>)"

text \<open>
  The outer loop of \<open>sendToUsers\<close>: \<open>getClientsByUserId\<close> is evaluated when the user's
  turn comes, on the registry as it is then.
\<close>

fun forEachUser ::
  "'d emitFunction \<Rightarrow> 'd WebSocketNotificationDto \<Rightarrow> string list \<Rightarrow> 'd Delivery \<Rightarrow> 'd Delivery" where
  "forEachUser emitFunction dto [] st = st"
| "forEachUser emitFunction dto (uid # rest) st =
     (let userClients = getClientsByUserId uid (connectedClients st)
      in forEachUser emitFunction dto rest
           (emitEach emitFunction dto (map socketId userClients) st))"

definition sendToUsers ::
  "(Date \<Rightarrow> string) \<Rightarrow> 'd BaseNotification \<Rightarrow> string list \<Rightarrow> 'd emitFunction \<Rightarrow> ClientMap
     \<Rightarrow> 'd Delivery" where
  "sendToUsers toISOString notification userIds emitFunction cs =
     (let websocketNotification = transformToWebSocketDto toISOString notification
      in forEachUser emitFunction websocketNotification userIds
           \<lparr>successfulSocketIds = [], emitCalls = [], connectedClients = cs\<rparr>)"

subsection \<open>NotificationGateway: sending\<close>

text \<open>
  \<open>server.sockets\<close>, a \<open>Map<string, Socket>\<close> owned by socket.io. All the gateway does
  with a socket here is \<open>socket.emit(event, data)\<close>, which returns or throws:
  \<open>emitError = None\<close> is a socket whose \<open>emit\<close> returns, \<open>Some reason\<close> one whose \<open>emit\<close>
  throws \<open>Error(reason)\<close>.
\<close>

datatype Socket = Socket (emitError: "string option")

type_synonym Server = "(string \<times> Socket) list"

text \<open>
  \<open>emitToSocket\<close>. A missing socket is removed from the registry in the \<open>else\<close> branch and
  once more in the outer \<open>catch\<close>, which rethrows the exception; a throwing \<open>emit\<close> is
  removed in the \<open>catch\<close> and wrapped. (\<open>removeClient\<close> does not throw in this code, so
  the inner \<open>catch (cleanupError)\<close> blocks are dead. The second message has an accented
  letter in the source.)
\<close>

definition emitToSocket ::
  "Server \<Rightarrow> string \<Rightarrow> string \<Rightarrow> 'd WebSocketNotificationDto \<Rightarrow> ClientMap
     \<Rightarrow> (exn + unit) \<times> ClientMap" where
  "emitToSocket sockets sid event data cs =
     (case map_of sockets sid of
        Some socket \<Rightarrow>
          (case emitError socket of
             None \<Rightarrow> (Inr (), cs)
           | Some reason \<Rightarrow>
               (Inl (WebSocketNotificationException ''Timeout de notificacion''),
                removeClient sid cs))
      | None \<Rightarrow>
          (Inl (WebSocketNotificationException ''Cliente no encontrado''),
           removeClient sid (removeClient sid cs)))"

text \<open>
  A socket id the gateway can send to: \<open>server.sockets\<close> has a socket for it and the
  socket's \<open>emit\<close> returns. Any other socket id makes \<open>emitToSocket\<close> throw.
\<close>

abbreviation canSend :: "Server \<Rightarrow> string \<Rightarrow> bool" where
  "canSend sockets sid \<equiv> map_of sockets sid = Some (Socket None)"

text \<open>
  \<open>NotificationGateway.sendToAll\<close> and \<open>NotificationGateway.sendToUsers\<close> (named
  \<open>gateway_sendToUsers\<close> here, the service has a method of the same name). Both return
  \<open>void\<close>; the model keeps the delivery state for the registry and the call log.
\<close>

definition sendToAll ::
  "Server \<Rightarrow> (Date \<Rightarrow> string) \<Rightarrow> 'd BaseNotification \<Rightarrow> ClientMap \<Rightarrow> 'd Delivery" where
  "sendToAll sockets toISOString notification cs =
     broadcastNotification toISOString notification
       (\<lambda>socketId notificationDto. emitToSocket sockets socketId ''notification'' notificationDto)
       cs"

definition gateway_sendToUsers ::
  "Server \<Rightarrow> (Date \<Rightarrow> string) \<Rightarrow> 'd BaseNotification \<Rightarrow> string list \<Rightarrow> ClientMap
     \<Rightarrow> 'd Delivery" where
  "gateway_sendToUsers sockets toISOString notification userIds cs =
     sendToUsers toISOString notification userIds
       (\<lambda>socketId notificationDto. emitToSocket sockets socketId ''notification'' notificationDto)
       cs"

subsection \<open>WebhookController\<close>

datatype TargetType = broadcast | targeted

record DeliveryInfo =
  totalClients :: nat
  deliveredTo :: nat
  targetType :: TargetType
  targetUsers :: "string list option"

record WebhookResponse =
  message :: string
  status :: string
  notificationId :: "string option"
  deliveryInfo :: DeliveryInfo

text \<open>
  What one request does: the value returned or the exception thrown, the calls made to
  the send primitive, and the registry afterwards.
\<close>

record 'd Handled =
  response :: "exn + WebhookResponse"
  sends :: "(string \<times> 'd WebSocketNotificationDto) list"
  clientsAfter :: ClientMap

text \<open>
  \<open>receiveNotification\<close>. None of the calls inside its \<open>try\<close> block throws in this code
  (the service catches what \<open>emitFunction\<close> throws), so the \<open>catch\<close> block is never
  entered and the response is always \<open>Inr\<close>.
\<close>

definition receiveNotification ::
  "Server \<Rightarrow> (Date \<Rightarrow> string) \<Rightarrow> string \<Rightarrow> Date \<Rightarrow> 'd WebhookNotificationDto \<Rightarrow> ClientMap
     \<Rightarrow> 'd Handled" where
  "receiveNotification sockets toISOString uuid now notification cs =
     (let totalConnectedClients = getConnectedClientsCount cs in
      if totalConnectedClients = 0 then
        \<lparr>response = Inr
           \<lparr>message = ''No clients connected - notification will not be delivered'',
            status = ''error'',
            notificationId = None,
            deliveryInfo =
              \<lparr>totalClients = 0, deliveredTo = 0, targetType = broadcast, targetUsers = None\<rparr>\<rparr>,
         sends = [],
         clientsAfter = cs\<rparr>
      else
        let processedNotification = processWebhookNotification uuid now notification in
        if (case wh_targetUsers notification of None \<Rightarrow> False | Some us \<Rightarrow> length us > 0) then
          let us = the (wh_targetUsers notification);
              connectedTargetUsers = filter (\<lambda>userId. isUserConnected userId cs) us;
              d = gateway_sendToUsers sockets toISOString processedNotification us cs;
              delivered = foldl (\<lambda>count userId.
                            count + length (getClientsByUserId userId (connectedClients d)))
                          0 connectedTargetUsers
          in \<lparr>response = Inr
                \<lparr>message = ''Notification received and processed successfully'',
                 status = ''success'',
                 notificationId = Some (bn_id processedNotification),
                 deliveryInfo =
                   \<lparr>totalClients = totalConnectedClients, deliveredTo = delivered,
                    targetType = targeted, targetUsers = Some us\<rparr>\<rparr>,
              sends = emitCalls d,
              clientsAfter = connectedClients d\<rparr>
        else
          let d = sendToAll sockets toISOString processedNotification cs
          in \<lparr>response = Inr
                \<lparr>message = ''Notification received and processed successfully'',
                 status = ''success'',
                 notificationId = Some (bn_id processedNotification),
                 deliveryInfo =
                   \<lparr>totalClients = totalConnectedClients, deliveredTo = totalConnectedClients,
                    targetType = broadcast, targetUsers = None\<rparr>\<rparr>,
              sends = emitCalls d,
              clientsAfter = connectedClients d\<rparr>)"

subsection \<open>NotificationGateway: connecting\<close>

text \<open>
  The part of a connecting \<open>Socket\<close> that \<open>handleConnection\<close> reads:
  \<open>client.id\<close>, \<open>client.handshake.headers?.authorization\<close> and
  \<open>client.handshake.auth?.token\<close>.
\<close>

record Client =
  client_id :: string
  headers_authorization :: "string option"
  auth_token :: "string option"

text \<open>The payload \<open>JwtService.verify\<close> returns; \<open>jwt_id\<close> is \<open>payload.id\<close>.\<close>

record JwtPayload =
  jwt_id :: "string option"

type_synonym JwtVerify = "string \<Rightarrow> exn + JwtPayload option"

text \<open>What \<open>handleConnection\<close> does to the client socket, in order.\<close>

datatype JsValue = JString string | JBool bool

datatype ClientAction =
    Emit string "(string \<times> JsValue) list"
  | Disconnect bool
  | SetDataUserId string
  | Join string

text \<open>
  \<open>extractToken\<close>. \<open>token.replace('Bearer ', '')\<close> replaces the first occurrence, which
  is the prefix that \<open>startsWith\<close> has just found: the first seven characters go.
\<close>

definition extractToken :: "Client \<Rightarrow> string option" where
  "extractToken client =
     (let token = headers_authorization client;
          token = (if \<not> truthy token \<and> truthy (auth_token client)
                   then auth_token client else token);
          token = (case token of
                     None \<Rightarrow> None
                   | Some t \<Rightarrow>
                       if t \<noteq> [] \<and> take 7 t = ''Bearer '' then Some (drop 7 t) else Some t)
      in if truthy token then token else None)"

definition authenticationRequired ::
  "(Date \<Rightarrow> string) \<Rightarrow> Date \<Rightarrow> Client \<Rightarrow> ClientAction list" where
  "authenticationRequired toISOString now client =
     [Emit ''error''
        [(''message'', JString ''Connection failed''),
         (''socketId'', JString (client_id client)),
         (''timestamp'', JString (toISOString now)),
         (''code'', JString ''AUTHENTICATION_REQUIRED'')],
      Disconnect True]"

definition handleConnection ::
  "JwtVerify \<Rightarrow> (Date \<Rightarrow> string) \<Rightarrow> Date \<Rightarrow> Client \<Rightarrow> ClientMap
     \<Rightarrow> ClientAction list \<times> ClientMap" where
  "handleConnection verify toISOString now client cs =
     (case extractToken client of
        None \<Rightarrow> (authenticationRequired toISOString now client, cs)
      | Some token \<Rightarrow>
          (case verify token of
             Inl error \<Rightarrow> (authenticationRequired toISOString now client, cs)
           | Inr None \<Rightarrow> (authenticationRequired toISOString now client, cs)
           | Inr (Some payload) \<Rightarrow>
               if \<not> truthy (jwt_id payload)
               then (authenticationRequired toISOString now client, cs)
               else
                 let uid = the (jwt_id payload) in
                 ([SetDataUserId uid,
                   Emit ''connected''
                     [(''message'', JString ''Successfully connected to notification service''),
                      (''socketId'', JString (client_id client)),
                      (''userId'', JString uid),
                      (''timestamp'', JString (toISOString now)),
                      (''authenticated'', JBool True)],
                   Join (''user-'' @ uid)],
                  addClient now uid (client_id client) cs)))"

definition handleDisconnect :: "Client \<Rightarrow> ClientMap \<Rightarrow> ClientMap" where
  "handleDisconnect client cs = removeClient (client_id client) cs"

subsection \<open>Test doubles\<close>

text \<open>
  The send primitives injected by notification.service.spec.ts: a \<open>jest.fn()\<close> that
  returns, and the one of "should handle emit function errors gracefully" that throws
  \<open>Error('Emit failed')\<close> for one socket id. Neither has access to the registry.
\<close>

definition mockEmitFunction :: "'d emitFunction" where
  "mockEmitFunction sid dto cs = (Inr (), cs)"

definition mockEmitFailingFor :: "string \<Rightarrow> 'd emitFunction" where
  "mockEmitFailingFor bad sid dto cs =
     (if sid = bad then Inl (Error ''Emit failed'') else Inr (), cs)"

text \<open>
  A send primitive that returns, while the client \<open>leaving\<close> disconnects
  (\<open>handleDisconnect\<close> removes it from the registry) during the call.
\<close>

definition mockEmitDisconnecting :: "string \<Rightarrow> 'd emitFunction" where
  "mockEmitDisconnecting leaving sid dto cs = (Inr (), removeClient leaving cs)"

text \<open>A stand-in for \<open>toISOString\<close> that is right at the epoch, the time the examples use.\<close>

definition epochISO :: "Date \<Rightarrow> string" where
  "epochISO d = ''1970-01-01T00:00:00.000Z''"

text \<open>The registry of the scenarios: \<open>c1\<close> and \<open>c3\<close> belong to alice, \<open>c2\<close> to bob.\<close>

definition scenarioClients :: ClientMap where
  "scenarioClients =
     addClient 0 ''alice'' ''c3'' (addClient 0 ''bob'' ''c2'' (addClient 0 ''alice'' ''c1'' []))"

definition scenarioNotification :: "unit BaseNotification" where
  "scenarioNotification =
     \<lparr>bn_id = ''n1'', bn_type = ''info'', bn_message = ''hi'', bn_data = None,
      bn_priority = ''normal'', bn_timestamp = 0, bn_source = ''webhook''\<rparr>"

text \<open>
  Servers for the scenarios: one where all three sockets are alive, one where the socket
  of \<open>c3\<close> is gone, one where it is there but its \<open>emit\<close> throws.
\<close>

definition healthySockets :: Server where
  "healthySockets = [(''c1'', Socket None), (''c2'', Socket None), (''c3'', Socket None)]"

definition socketsWithoutC3 :: Server where
  "socketsWithoutC3 = [(''c1'', Socket None), (''c2'', Socket None)]"

definition socketsBrokenC3 :: Server where
  "socketsBrokenC3 =
     [(''c1'', Socket None), (''c2'', Socket None), (''c3'', Socket (Some ''write EPIPE''))]"

text \<open>Request bodies, and the wire format of the first of them at the epoch.\<close>

definition broadcastRequest :: "unit WebhookNotificationDto" where
  "broadcastRequest =
     \<lparr>wh_type = ''info'', wh_message = ''hi'', wh_targetUsers = None, wh_data = None,
      wh_priority = None\<rparr>"

definition emptyTargetsRequest :: "unit WebhookNotificationDto" where
  "emptyTargetsRequest =
     \<lparr>wh_type = ''info'', wh_message = ''hi'', wh_targetUsers = Some [], wh_data = None,
      wh_priority = None\<rparr>"

definition aliceRequest :: "unit WebhookNotificationDto" where
  "aliceRequest =
     \<lparr>wh_type = ''info'', wh_message = ''hi'', wh_targetUsers = Some [''alice''],
      wh_data = None, wh_priority = None\<rparr>"

definition urgentRequest :: "unit WebhookNotificationDto" where
  "urgentRequest =
     \<lparr>wh_type = ''info'', wh_message = ''hi'', wh_targetUsers = None, wh_data = None,
      wh_priority = Some ''urgent''\<rparr>"

definition scenarioDto :: "unit WebSocketNotificationDto" where
  "scenarioDto =
     \<lparr>ws_id = ''n1'', ws_type = ''info'', ws_message = ''hi'', ws_data = None,
      ws_priority = ''normal'', ws_timestamp = ''1970-01-01T00:00:00.000Z'',
      ws_source = ''webhook''\<rparr>"

text \<open>
  A \<open>JwtService.verify\<close> for the examples: the token \<open>good\<close> carries the id \<open>alice\<close>, the
  token \<open>noid\<close> a payload without id, \<open>null\<close> no payload, and any other token is
  rejected.
\<close>

definition verifyStub :: JwtVerify where
  "verifyStub token =
     (if token = ''good'' then Inr (Some \<lparr>jwt_id = Some ''alice''\<rparr>)
      else if token = ''noid'' then Inr (Some \<lparr>jwt_id = None\<rparr>)
      else if token = ''null'' then Inr None
      else Inl (Error ''jwt malformed''))"

definition clientWith :: "string option \<Rightarrow> Client" where
  "clientWith authorization =
     \<lparr>client_id = ''c9'', headers_authorization = authorization, auth_token = None\<rparr>"

section \<open>Properties\<close>

lemmas eval_defs =
  receiveNotification_def sendToAll_def gateway_sendToUsers_def broadcastNotification_def
  sendToUsers_def emitToSocket_def removeClient_def map_delete_def
  processWebhookNotification_def transformToWebSocketDto_def or_default_def
  getConnectedClientsCount_def getClientsByUserId_def isUserConnected_def
  scenarioClients_def scenarioNotification_def scenarioDto_def addClient_def epochISO_def
  healthySockets_def socketsWithoutC3_def socketsBrokenC3_def mockEmitFunction_def
  mockEmitFailingFor_def mockEmitDisconnecting_def broadcastRequest_def emptyTargetsRequest_def aliceRequest_def
  urgentRequest_def Let_def

subsection \<open>The registry\<close>

lemma map_set_keys: "fst ` set (map_set k v ps) = insert k (fst ` set ps)"
  by (induction ps) auto

lemma map_set_distinct: "distinct (map fst ps) \<Longrightarrow> distinct (map fst (map_set k v ps))"
  by (induction ps) (auto simp add: map_set_keys)

lemma map_set_all: "P (k, v) \<Longrightarrow> list_all P ps \<Longrightarrow> list_all P (map_set k v ps)"
  by (induction ps) auto

text \<open>A socket id that is not registered yet goes to the end: registration order.\<close>

lemma addClient_new:
  "sid \<notin> fst ` set cs \<Longrightarrow> map fst (addClient now uid sid cs) = map fst cs @ [sid]"
  unfolding addClient_def by (induction cs) auto

text \<open>\<open>removeClient\<close> drops the entry of the socket id, if there is one, and nothing else.\<close>

lemma removeClient_filter: "removeClient sid cs = filter (\<lambda>p. fst p \<noteq> sid) cs"
proof (cases "map_of cs sid")
  case None
  then have "sid \<notin> fst ` set cs" by (simp add: map_of_eq_None_iff)
  then have "filter (\<lambda>p. fst p \<noteq> sid) cs = cs" by (auto simp: filter_id_conv)
  with None show ?thesis by (simp add: removeClient_def)
next
  case (Some a)
  then show ?thesis by (simp add: removeClient_def map_delete_def)
qed

lemma wf_clients_empty: "wf_clients []"
  by (simp add: wf_clients_def)

lemma wf_clients_addClient: "wf_clients cs \<Longrightarrow> wf_clients (addClient now uid sid cs)"
  by (simp add: wf_clients_def addClient_def map_set_distinct map_set_all)

lemma wf_clients_removeClient: "wf_clients cs \<Longrightarrow> wf_clients (removeClient sid cs)"
  by (auto simp add: wf_clients_def removeClient_filter distinct_map_filter list_all_iff)

lemma map_socketId_keys:
  "list_all (\<lambda>p. socketId (snd p) = fst p) cs \<Longrightarrow> map socketId (map snd cs) = map fst cs"
  by (induction cs) simp_all

lemma wf_socketIds_distinct:
  assumes "wf_clients cs"
  shows "distinct (map socketId (map snd cs))"
proof -
  from assms have la: "list_all (\<lambda>p. socketId (snd p) = fst p) cs"
    and d: "distinct (map fst cs)"
    unfolding wf_clients_def by blast+
  from la have "map socketId (map snd cs) = map fst cs" by (rule map_socketId_keys)
  with d show ?thesis by (simp only:)
qed

subsection \<open>The delivery loop\<close>

text \<open>One turn of the loop, whatever the send primitive does.\<close>

lemma emitEach_step:
  "emitEach emit dto (sid # rest) st =
     emitEach emit dto rest
       \<lparr>successfulSocketIds =
          successfulSocketIds st
            @ (if isl (fst (emit sid dto (connectedClients st))) then [] else [sid]),
        emitCalls = emitCalls st @ [(sid, dto)],
        connectedClients = snd (emit sid dto (connectedClients st))\<rparr>"
  by (cases "emit sid dto (connectedClients st)") (auto split: sum.splits)

text \<open>Every socket id of the array is tried once, in order, failures or not.\<close>

lemma emitEach_calls:
  "emitCalls (emitEach emit dto sids st) = emitCalls st @ map (\<lambda>s. (s, dto)) sids"
  by (induction sids arbitrary: st) (simp_all add: emitEach_step del: emitEach.simps(2))

lemma emitEach_all_ok:
  assumes "\<forall>sid d c. fst (emit sid d c) = Inr ()"
  shows "successfulSocketIds (emitEach emit dto sids st) = successfulSocketIds st @ sids"
  using assms
  by (induction sids arbitrary: st) (simp_all add: emitEach_step del: emitEach.simps(2))

lemma emitEach_pure:
  assumes "\<forall>sid d c. snd (emit sid d c) = c"
  shows "connectedClients (emitEach emit dto sids st) = connectedClients st"
  using assms
  by (induction sids arbitrary: st) (simp_all add: emitEach_step del: emitEach.simps(2))

text \<open>
  The registry after the loop is what the calls of the send primitive, applied in order,
  make of it.
\<close>

lemma emitEach_registry:
  "connectedClients (emitEach emit dto sids st)
     = foldl (\<lambda>c sid. snd (emit sid dto c)) (connectedClients st) sids"
  by (induction sids arbitrary: st) (simp_all add: emitEach_step del: emitEach.simps(2))

text \<open>With a primitive that leaves the registry alone, the ids returned are those it accepted.\<close>

lemma emitEach_pure_results:
  assumes "\<forall>sid d c. snd (emit sid d c) = c"
  shows "successfulSocketIds (emitEach emit dto sids st)
           = successfulSocketIds st
             @ filter (\<lambda>s. \<not> isl (fst (emit s dto (connectedClients st)))) sids"
  using assms
  by (induction sids arbitrary: st) (simp_all add: emitEach_step del: emitEach.simps(2))

text \<open>A send primitive that registers nobody leaves nobody new in the registry.\<close>

lemma emitEach_subset:
  assumes "\<forall>sid d c. set (snd (emit sid d c)) \<subseteq> set c"
  shows "set (connectedClients (emitEach emit dto sids st)) \<subseteq> set (connectedClients st)"
  using assms
proof (induction sids arbitrary: st)
  case Nil
  show ?case by simp
next
  case (Cons sid rest)
  let ?st' = "\<lparr>successfulSocketIds =
          successfulSocketIds st
            @ (if isl (fst (emit sid dto (connectedClients st))) then [] else [sid]),
        emitCalls = emitCalls st @ [(sid, dto)],
        connectedClients = snd (emit sid dto (connectedClients st))\<rparr>"
  have "set (connectedClients (emitEach emit dto rest ?st')) \<subseteq> set (connectedClients ?st')"
    using Cons by blast
  also have "\<dots> \<subseteq> set (connectedClients st)" using Cons.prems by simp
  finally show ?case by (simp only: emitEach_step)
qed

subsection \<open>Broadcast\<close>

text \<open>
  Claim C6. Broadcast completeness and order under no failures. For every registry and
  every send primitive that returns normally on all inputs, \<open>broadcastNotification\<close>
  applies the primitive exactly once to each key of the registry as it was at call
  time, in the order of the \<open>Map\<close> (registration order, see \<open>addClient_new\<close>) and with
  the wire format of the notification: the calls are these, and the registry afterwards
  is what the primitive's own effects, applied in that order, make of it (entries that
  disappear while the loop runs are still sent to). It returns all these socket ids, and
  their number is the number of registered connections.
\<close>

theorem broadcast_complete_in_order:
  assumes "\<forall>sid d c. fst (emitFunction sid d c) = Inr ()"
  shows "emitCalls (broadcastNotification toISOString n emitFunction cs)
           = map (\<lambda>sid. (sid, transformToWebSocketDto toISOString n)) (map fst cs)
       \<and> connectedClients (broadcastNotification toISOString n emitFunction cs)
           = foldl (\<lambda>c sid. snd (emitFunction sid (transformToWebSocketDto toISOString n) c))
               cs (map fst cs)
       \<and> successfulSocketIds (broadcastNotification toISOString n emitFunction cs) = map fst cs
       \<and> length (successfulSocketIds (broadcastNotification toISOString n emitFunction cs))
           = getConnectedClientsCount cs"
  using emitEach_all_ok [OF assms]
  by (simp add: broadcastNotification_def Let_def emitEach_calls emitEach_registry
        getConnectedClientsCount_def)

theorem broadcast_complete_in_order_witness:
  "(\<forall>sid d c. fst (mockEmitDisconnecting ''c3'' sid (d :: unit WebSocketNotificationDto) c)
       = Inr ())
   \<and> emitCalls (broadcastNotification epochISO scenarioNotification
        (mockEmitDisconnecting ''c3'') scenarioClients)
       = [(''c1'', scenarioDto), (''c2'', scenarioDto), (''c3'', scenarioDto)]
   \<and> map fst (connectedClients (broadcastNotification epochISO scenarioNotification
        (mockEmitDisconnecting ''c3'') scenarioClients)) = [''c1'', ''c2'']
   \<and> successfulSocketIds (broadcastNotification epochISO scenarioNotification
        (mockEmitDisconnecting ''c3'') scenarioClients) = [''c1'', ''c2'', ''c3'']
   \<and> getConnectedClientsCount scenarioClients = 3"
  using broadcast_complete_in_order
          [of "mockEmitDisconnecting ''c3'' :: unit emitFunction" epochISO scenarioNotification
              scenarioClients]
  by (simp add: eval_defs mockEmitDisconnecting_def)

subsection \<open>The webhook: no connection, broadcast, empty target list\<close>

text \<open>
  Claim C5. Zero connections is not an error. Whenever the registry is empty at request
  time, \<open>receiveNotification\<close> returns (it does not throw) the result with the message
  "No clients connected - notification will not be delivered", whose \<open>deliveryInfo\<close> has
  \<open>totalClients = 0\<close> and \<open>deliveredTo = 0\<close>; no send is attempted and the registry is
  left as it was. (The \<open>status\<close> field of this result is the string \<open>error\<close>.)
\<close>

theorem zero_connections_not_an_error:
  assumes "getConnectedClientsCount cs = 0"
  shows "response (receiveNotification sockets toISOString uuid now notification cs)
          = Inr \<lparr>message = ''No clients connected - notification will not be delivered'',
                 status = ''error'', notificationId = None,
                 deliveryInfo = \<lparr>totalClients = 0, deliveredTo = 0, targetType = broadcast,
                                 targetUsers = None\<rparr>\<rparr>
       \<and> sends (receiveNotification sockets toISOString uuid now notification cs) = []
       \<and> clientsAfter (receiveNotification sockets toISOString uuid now notification cs) = cs"
  using assms by (simp add: receiveNotification_def)

theorem zero_connections_not_an_error_witness:
  "getConnectedClientsCount [] = 0
   \<and> response (receiveNotification healthySockets epochISO ''n1'' 0 aliceRequest [])
       = Inr \<lparr>message = ''No clients connected - notification will not be delivered'',
              status = ''error'', notificationId = None,
              deliveryInfo = \<lparr>totalClients = 0, deliveredTo = 0, targetType = broadcast,
                              targetUsers = None\<rparr>\<rparr>
   \<and> sends (receiveNotification healthySockets epochISO ''n1'' 0 aliceRequest []) = []"
  using zero_connections_not_an_error [of "[]" healthySockets epochISO "''n1''" 0 aliceRequest]
  by (simp add: getConnectedClientsCount_def)

text \<open>
  Claim C2, as stated, fails. Three connections are registered and the socket of \<open>c3\<close> is
  gone: the send to \<open>c3\<close> fails (the service returns \<open>c1\<close> and \<open>c2\<close> only), the producer
  gets a success response, and its \<open>deliveredTo\<close> is 3, not 2.
\<close>

theorem deliveredTo_counts_successes_counterexample:
  "successfulSocketIds (sendToAll socketsWithoutC3 epochISO
       (processWebhookNotification ''n1'' 0 broadcastRequest) scenarioClients) = [''c1'', ''c2'']
   \<and> response (receiveNotification socketsWithoutC3 epochISO ''n1'' 0 broadcastRequest
        scenarioClients)
     = Inr \<lparr>message = ''Notification received and processed successfully'',
            status = ''success'', notificationId = Some ''n1'',
            deliveryInfo = \<lparr>totalClients = 3, deliveredTo = 3, targetType = broadcast,
                            targetUsers = None\<rparr>\<rparr>"
  by (simp add: eval_defs)

text \<open>
  Claim C2, amended. When a broadcast is requested (no \<open>targetUsers\<close>, or an empty array)
  and \<open>k > 0\<close> connections are registered, the producer receives a success response
  however many of the sends fail, and its \<open>deliveryInfo\<close> has
  \<open>deliveredTo = totalClients = k\<close>: the controller reports the number of connections
  registered before sending, not the number of successful sends (the gateway's
  \<open>sendToAll\<close> returns nothing it could count).
\<close>

theorem broadcast_reports_registered_count:
  assumes "getConnectedClientsCount cs > 0"
      and "wh_targetUsers notification = None \<or> wh_targetUsers notification = Some []"
  shows "response (receiveNotification sockets toISOString uuid now notification cs)
          = Inr \<lparr>message = ''Notification received and processed successfully'',
                 status = ''success'', notificationId = Some uuid,
                 deliveryInfo = \<lparr>totalClients = getConnectedClientsCount cs,
                                 deliveredTo = getConnectedClientsCount cs,
                                 targetType = broadcast, targetUsers = None\<rparr>\<rparr>"
  using assms by (auto simp add: receiveNotification_def Let_def processWebhookNotification_def)

theorem broadcast_reports_registered_count_witness:
  "getConnectedClientsCount scenarioClients = 3
   \<and> wh_targetUsers broadcastRequest = None
   \<and> successfulSocketIds (sendToAll [] epochISO
        (processWebhookNotification ''n1'' 0 broadcastRequest) scenarioClients) = []
   \<and> response (receiveNotification [] epochISO ''n1'' 0 broadcastRequest scenarioClients)
       = Inr \<lparr>message = ''Notification received and processed successfully'',
              status = ''success'', notificationId = Some ''n1'',
              deliveryInfo = \<lparr>totalClients = 3, deliveredTo = 3, targetType = broadcast,
                              targetUsers = None\<rparr>\<rparr>"
  using broadcast_reports_registered_count
          [of scenarioClients broadcastRequest "[]" epochISO "''n1''" 0]
  by (simp add: eval_defs)

text \<open>
  Claim C1, as stated, fails. A webhook request whose \<open>targetUsers\<close> is the empty array is
  not rejected: with three connections registered it is sent to all three and answered
  with a success response of target type \<open>broadcast\<close>.
\<close>

theorem empty_target_rejected_counterexample:
  "receiveNotification healthySockets epochISO ''n1'' 0 emptyTargetsRequest scenarioClients
     = \<lparr>response = Inr \<lparr>message = ''Notification received and processed successfully'',
            status = ''success'', notificationId = Some ''n1'',
            deliveryInfo = \<lparr>totalClients = 3, deliveredTo = 3, targetType = broadcast,
                            targetUsers = None\<rparr>\<rparr>,
        sends = [(''c1'', scenarioDto), (''c2'', scenarioDto), (''c3'', scenarioDto)],
        clientsAfter = scenarioClients\<rparr>"
  by (simp add: eval_defs)

text \<open>
  Claim C1, amended. For every notification, \<open>NotificationService.sendToUsers\<close> with an
  empty identity list makes no send attempt and returns the empty list of socket ids; it
  does not report an error. A webhook request whose \<open>targetUsers\<close> is an empty array
  never reaches \<open>sendToUsers\<close>: the controller treats it as a broadcast, so when
  connections are registered one send is attempted to each of them and the response is
  the success response of target type \<open>broadcast\<close>.
\<close>

theorem empty_target_list_broadcasts:
  "sendToUsers toISOString n [] emitFunction cs
     = \<lparr>successfulSocketIds = [], emitCalls = [], connectedClients = cs\<rparr>
   \<and> (wh_targetUsers notification = Some [] \<and> 0 < getConnectedClientsCount cs \<longrightarrow>
        map fst (sends (receiveNotification sockets toISOString uuid now notification cs))
          = map fst cs
        \<and> response (receiveNotification sockets toISOString uuid now notification cs)
          = Inr \<lparr>message = ''Notification received and processed successfully'',
                 status = ''success'', notificationId = Some uuid,
                 deliveryInfo = \<lparr>totalClients = getConnectedClientsCount cs,
                                 deliveredTo = getConnectedClientsCount cs,
                                 targetType = broadcast, targetUsers = None\<rparr>\<rparr>)"
  by (simp add: sendToUsers_def receiveNotification_def Let_def sendToAll_def
        broadcastNotification_def emitEach_calls processWebhookNotification_def comp_def)

theorem empty_target_list_broadcasts_witness:
  "wh_targetUsers emptyTargetsRequest = Some []
   \<and> getConnectedClientsCount scenarioClients = 3
   \<and> emitCalls (sendToUsers epochISO scenarioNotification [] mockEmitFunction scenarioClients)
       = []
   \<and> map fst (sends (receiveNotification socketsBrokenC3 epochISO ''n1'' 0 emptyTargetsRequest
        scenarioClients)) = [''c1'', ''c2'', ''c3'']"
  using empty_target_list_broadcasts
          [of epochISO scenarioNotification mockEmitFunction scenarioClients emptyTargetsRequest
              socketsBrokenC3 "''n1''" 0]
  by (simp add: emptyTargetsRequest_def scenarioClients_def addClient_def
        getConnectedClientsCount_def)

subsection \<open>Priority\<close>

text \<open>
  Claim C4, as stated, fails. A payload whose priority is the invalid value \<open>urgent\<close> is
  normalized to a notification of priority \<open>urgent\<close>, not \<open>normal\<close>.
\<close>

theorem invalid_priority_counterexample:
  "bn_priority (processWebhookNotification ''n1'' 0 urgentRequest) = ''urgent''"
  by (simp add: processWebhookNotification_def or_default_def urgentRequest_def)

text \<open>
  Claim C4, amended. The notification produced by \<open>processWebhookNotification\<close> has the
  payload's priority when that value is one of \<open>low\<close>, \<open>normal\<close>, \<open>high\<close>, and priority
  \<open>normal\<close> when the field is absent or empty. Any other value is copied unchanged:
  \<open>priority || 'normal'\<close> replaces falsy values only, and rejecting a value outside the
  three is left to the validation of the DTO (\<open>@IsIn\<close>), before the service is reached.
\<close>

theorem priority_defaults_when_absent:
  "(wh_priority w = Some p \<and> p \<in> {''low'', ''normal'', ''high''}
       \<longrightarrow> bn_priority (processWebhookNotification uuid now w) = p)
   \<and> (wh_priority w = None \<or> wh_priority w = Some []
       \<longrightarrow> bn_priority (processWebhookNotification uuid now w) = ''normal'')
   \<and> (wh_priority w = Some p \<and> p \<noteq> []
       \<longrightarrow> bn_priority (processWebhookNotification uuid now w) = p)"
  by (auto simp add: processWebhookNotification_def or_default_def)

theorem priority_defaults_when_absent_witness:
  "wh_priority (broadcastRequest\<lparr>wh_priority := Some ''high''\<rparr>) = Some ''high''
   \<and> bn_priority (processWebhookNotification ''n1'' 0
        (broadcastRequest\<lparr>wh_priority := Some ''high''\<rparr>)) = ''high''
   \<and> wh_priority broadcastRequest = None
   \<and> bn_priority (processWebhookNotification ''n1'' 0 broadcastRequest) = ''normal''"
  using priority_defaults_when_absent
          [of "broadcastRequest\<lparr>wh_priority := Some ''high''\<rparr>" "''high''" "''n1''" 0]
        priority_defaults_when_absent [of broadcastRequest "''high''" "''n1''" 0]
  by (simp add: broadcastRequest_def)

subsection \<open>Failure isolation and eviction\<close>

lemma emitToSocket_ok:
  "map_of sockets sid = Some (Socket None) \<Longrightarrow>
     emitToSocket sockets sid ev dto cs = (Inr (), cs)"
  by (simp add: emitToSocket_def)

lemma emitToSocket_fail:
  "map_of sockets sid \<noteq> Some (Socket None) \<Longrightarrow>
     isl (fst (emitToSocket sockets sid ev dto cs))
     \<and> snd (emitToSocket sockets sid ev dto cs) = filter (\<lambda>p. fst p \<noteq> sid) cs"
  by (cases "map_of sockets sid"; cases "the (map_of sockets sid)")
     (auto simp add: emitToSocket_def removeClient_filter split: option.splits)

lemma emitToSocket_subset: "set (snd (emitToSocket sockets sid ev dto cs)) \<subseteq> set cs"
  by (auto simp add: emitToSocket_def removeClient_filter split: option.splits)

text \<open>
  The loop with the gateway's primitive, whatever the state of the sockets: the ids
  returned are those that could be sent to, and the others are evicted.
\<close>

lemma emitEach_gateway_all:
  "successfulSocketIds (emitEach (\<lambda>s d. emitToSocket sockets s ev d) dto sids st)
     = successfulSocketIds st @ filter (canSend sockets) sids
   \<and> connectedClients (emitEach (\<lambda>s d. emitToSocket sockets s ev d) dto sids st)
     = filter (\<lambda>p. fst p \<notin> set sids \<or> canSend sockets (fst p)) (connectedClients st)"
proof (induction sids arbitrary: st)
  case Nil
  show ?case by simp
next
  case (Cons sid rest)
  show ?case
  proof (cases "canSend sockets sid")
    case True
    have "filter (\<lambda>p. fst p \<notin> set rest \<or> canSend sockets (fst p)) (connectedClients st)
        = filter (\<lambda>p. fst p \<notin> set (sid # rest) \<or> canSend sockets (fst p)) (connectedClients st)"
      using True by (intro filter_cong) auto
    with True Cons show ?thesis
      by (simp add: emitEach_step emitToSocket_ok del: emitEach.simps(2))
  next
    case False
    have "filter (\<lambda>p. fst p \<notin> set rest \<or> canSend sockets (fst p))
            (filter (\<lambda>p. fst p \<noteq> sid) (connectedClients st))
        = filter (\<lambda>p. fst p \<notin> set (sid # rest) \<or> canSend sockets (fst p)) (connectedClients st)"
      using False unfolding filter_filter by (intro filter_cong) auto
    with False Cons show ?thesis
      by (simp add: emitEach_step emitToSocket_fail del: emitEach.simps(2))
  qed
qed







subsection \<open>Targeted delivery\<close>

text \<open>
  With a send primitive that leaves the registry alone, the outer loop tries the
  connections of each identity of the list in turn, as often as the identity occurs.
\<close>

lemma forEachUser_pure:
  assumes "\<forall>sid d c. snd (emit sid d c) = c"
  shows "connectedClients (forEachUser emit dto us st) = connectedClients st
       \<and> map fst (emitCalls (forEachUser emit dto us st))
           = map fst (emitCalls st)
             @ concat (map (\<lambda>u. map socketId (getClientsByUserId u (connectedClients st))) us)"
  using assms
  by (induction us arbitrary: st) (simp_all add: emitEach_pure emitEach_calls comp_def)

lemma forEachUser_pure_results:
  assumes "\<forall>sid d c. snd (emit sid d c) = c"
  shows "successfulSocketIds (forEachUser emit dto us st)
           = successfulSocketIds st
             @ concat (map (\<lambda>u. filter (\<lambda>s. \<not> isl (fst (emit s dto (connectedClients st))))
                                 (map socketId (getClientsByUserId u (connectedClients st)))) us)"
  using assms
  by (induction us arbitrary: st) (simp_all add: emitEach_pure emitEach_pure_results)

text \<open>Every call of one delivery carries the same payload.\<close>

lemma forEachUser_dto:
  "snd ` set (emitCalls (forEachUser emit dto us st)) \<subseteq> snd ` set (emitCalls st) \<union> {dto}"
proof (induction us arbitrary: st)
  case Nil
  show ?case by auto
next
  case (Cons u us)
  let ?st' = "emitEach emit dto (map socketId (getClientsByUserId u (connectedClients st))) st"
  have "snd ` set (emitCalls ?st') \<subseteq> snd ` set (emitCalls st) \<union> {dto}"
    by (auto simp add: emitEach_calls)
  with Cons [of ?st'] show ?case by (auto simp add: Let_def)
qed

text \<open>
  With a send primitive that registers nobody (it may remove entries, as the gateway's
  does), every send goes to a connection that was registered under one of the
  identities of the list when the delivery started.
\<close>

lemma forEachUser_targets:
  assumes "\<forall>sid d c. set (snd (emit sid d c)) \<subseteq> set c"
  shows "set (connectedClients (forEachUser emit dto us st)) \<subseteq> set (connectedClients st)
       \<and> fst ` set (emitCalls (forEachUser emit dto us st))
           \<subseteq> fst ` set (emitCalls st)
             \<union> {socketId client | client.
                  client \<in> snd ` set (connectedClients st) \<and> userId client \<in> set us}"
  using assms
proof (induction us arbitrary: st)
  case Nil
  show ?case by simp
next
  case (Cons u us)
  let ?st' = "emitEach emit dto (map socketId (getClientsByUserId u (connectedClients st))) st"
  have sub: "set (connectedClients ?st') \<subseteq> set (connectedClients st)"
    using Cons.prems by (rule emitEach_subset)
  have calls: "fst ` set (emitCalls ?st')
      \<subseteq> fst ` set (emitCalls st)
         \<union> {socketId client | client.
               client \<in> snd ` set (connectedClients st) \<and> userId client = u}"
    by (force simp add: emitEach_calls getClientsByUserId_def)
  from Cons.IH [OF Cons.prems, of ?st']
  have ih1: "set (connectedClients (forEachUser emit dto us ?st')) \<subseteq> set (connectedClients ?st')"
   and ih2: "fst ` set (emitCalls (forEachUser emit dto us ?st'))
           \<subseteq> fst ` set (emitCalls ?st')
             \<union> {socketId client | client.
                  client \<in> snd ` set (connectedClients ?st') \<and> userId client \<in> set us}"
    by simp_all
  have "set (connectedClients (forEachUser emit dto (u # us) st)) \<subseteq> set (connectedClients st)"
    using ih1 sub by (simp add: Let_def)
  moreover have "fst ` set (emitCalls (forEachUser emit dto (u # us) st))
           \<subseteq> fst ` set (emitCalls st)
             \<union> {socketId client | client.
                  client \<in> snd ` set (connectedClients st) \<and> userId client \<in> set (u # us)}"
  proof
    fix x assume "x \<in> fst ` set (emitCalls (forEachUser emit dto (u # us) st))"
    then have "x \<in> fst ` set (emitCalls (forEachUser emit dto us ?st'))" by (simp add: Let_def)
    with ih2 consider "x \<in> fst ` set (emitCalls ?st')"
      | "x \<in> {socketId client | client.
                  client \<in> snd ` set (connectedClients ?st') \<and> userId client \<in> set us}"
      by blast
    then show "x \<in> fst ` set (emitCalls st)
             \<union> {socketId client | client.
                  client \<in> snd ` set (connectedClients st) \<and> userId client \<in> set (u # us)}"
    proof cases
      case 1
      with calls show ?thesis by auto
    next
      case 2
      with sub show ?thesis by auto
    qed
  qed
  ultimately show ?case by blast
qed

text \<open>Facts about a registry in which every entry is stored under its own socket id.\<close>

lemma getClientsByUserId_entries:
  "getClientsByUserId u cs = map snd (filter (\<lambda>p. userId (snd p) = u) cs)"
  by (simp add: getClientsByUserId_def filter_map comp_def)

lemma wf_clients_filter: "wf_clients cs \<Longrightarrow> wf_clients (filter P cs)"
  by (auto simp add: wf_clients_def distinct_map_filter list_all_iff)

lemma wf_own_socket:
  assumes "wf_clients cs" and "p \<in> set cs"
  shows "fst p \<in> set (map socketId (getClientsByUserId u cs)) \<longleftrightarrow> userId (snd p) = u"
proof
  assume "fst p \<in> set (map socketId (getClientsByUserId u cs))"
  then obtain q where q: "q \<in> set cs" "userId (snd q) = u" "socketId (snd q) = fst p"
    by (auto simp add: getClientsByUserId_entries)
  from assms(1) q(1) have "socketId (snd q) = fst q"
    by (simp add: wf_clients_def list_all_iff)
  with q(3) have "fst q = fst p" by simp
  moreover from assms(1) have "distinct (map fst cs)" by (simp add: wf_clients_def)
  ultimately have "q = p" using q(1) assms(2)
    by (metis eq_key_imp_eq_value prod.collapse)
  with q(2) show "userId (snd p) = u" by simp
next
  assume "userId (snd p) = u"
  moreover from assms have "socketId (snd p) = fst p"
    by (simp add: wf_clients_def list_all_iff)
  ultimately show "fst p \<in> set (map socketId (getClientsByUserId u cs))"
    using assms(2) by (force simp add: getClientsByUserId_entries)
qed

text \<open>One identity's turn with the gateway's primitive, on a well-formed registry.\<close>

lemma gateway_turn:
  assumes "wf_clients (connectedClients st)"
  shows "connectedClients (emitEach (\<lambda>s d. emitToSocket sockets s ev d) dto
            (map socketId (getClientsByUserId u (connectedClients st))) st)
          = filter (\<lambda>p. userId (snd p) \<noteq> u \<or> canSend sockets (fst p)) (connectedClients st)"
proof -
  have "filter (\<lambda>p. fst p \<notin> set (map socketId (getClientsByUserId u (connectedClients st)))
                  \<or> canSend sockets (fst p)) (connectedClients st)
      = filter (\<lambda>p. userId (snd p) \<noteq> u \<or> canSend sockets (fst p)) (connectedClients st)"
    using wf_own_socket [OF assms] by (intro filter_cong) auto
  then show ?thesis by (simp only: emitEach_gateway_all)
qed

lemma gateway_two_identities:
  assumes wf: "wf_clients cs"
  shows "map fst (emitCalls (gateway_sendToUsers sockets toISOString n [a, b] cs))
           = map socketId (getClientsByUserId a cs)
             @ map socketId (getClientsByUserId b
                 (filter (\<lambda>p. userId (snd p) \<noteq> a \<or> canSend sockets (fst p)) cs))"
    and "successfulSocketIds (gateway_sendToUsers sockets toISOString n [a, b] cs)
           = filter (canSend sockets)
              (map socketId (getClientsByUserId a cs)
               @ map socketId (getClientsByUserId b
                   (filter (\<lambda>p. userId (snd p) \<noteq> a \<or> canSend sockets (fst p)) cs)))"
    and "connectedClients (gateway_sendToUsers sockets toISOString n [a, b] cs)
           = filter (\<lambda>p. canSend sockets (fst p)
                          \<or> (userId (snd p) \<noteq> a \<and> userId (snd p) \<noteq> b)) cs"
proof -
  let ?gw = "\<lambda>s d. emitToSocket sockets s ''notification'' d"
  let ?dto = "transformToWebSocketDto toISOString n"
  let ?st0 = "\<lparr>successfulSocketIds = [], emitCalls = [], connectedClients = cs\<rparr> :: 'a Delivery"
  let ?st1 = "emitEach ?gw ?dto (map socketId (getClientsByUserId a cs)) ?st0"
  let ?cs1 = "filter (\<lambda>p. userId (snd p) \<noteq> a \<or> canSend sockets (fst p)) cs"
  have run: "gateway_sendToUsers sockets toISOString n [a, b] cs
               = emitEach ?gw ?dto (map socketId (getClientsByUserId b (connectedClients ?st1))) ?st1"
    by (simp add: gateway_sendToUsers_def sendToUsers_def Let_def)
  have c1: "connectedClients ?st1 = ?cs1"
    using gateway_turn [of ?st0 sockets "''notification''" ?dto a] wf by simp
  have wf1: "wf_clients ?cs1" using wf by (rule wf_clients_filter)
  show "map fst (emitCalls (gateway_sendToUsers sockets toISOString n [a, b] cs))
           = map socketId (getClientsByUserId a cs) @ map socketId (getClientsByUserId b ?cs1)"
    by (simp add: run c1 emitEach_calls comp_def)
  show "successfulSocketIds (gateway_sendToUsers sockets toISOString n [a, b] cs)
           = filter (canSend sockets)
              (map socketId (getClientsByUserId a cs) @ map socketId (getClientsByUserId b ?cs1))"
  proof -
    have s1: "successfulSocketIds ?st1
                = filter (canSend sockets) (map socketId (getClientsByUserId a cs))"
      by (simp add: emitEach_gateway_all)
    have "successfulSocketIds (gateway_sendToUsers sockets toISOString n [a, b] cs)
            = successfulSocketIds ?st1
              @ filter (canSend sockets)
                  (map socketId (getClientsByUserId b (connectedClients ?st1)))"
      by (simp only: run emitEach_gateway_all)
    then show ?thesis by (simp only: s1 c1 filter_append)
  qed
  have "connectedClients (gateway_sendToUsers sockets toISOString n [a, b] cs)
          = filter (\<lambda>p. userId (snd p) \<noteq> b \<or> canSend sockets (fst p)) ?cs1"
    using gateway_turn [of ?st1 sockets "''notification''" ?dto b] wf1 by (simp add: run c1)
  also have "\<dots> = filter (\<lambda>p. canSend sockets (fst p)
                          \<or> (userId (snd p) \<noteq> a \<and> userId (snd p) \<noteq> b)) cs"
    unfolding filter_filter by (intro filter_cong) auto
  finally show "connectedClients (gateway_sendToUsers sockets toISOString n [a, b] cs)
           = filter (\<lambda>p. canSend sockets (fst p)
                          \<or> (userId (snd p) \<noteq> a \<and> userId (snd p) \<noteq> b)) cs" .
qed

lemma other_identity_untouched:
  "a \<noteq> b \<Longrightarrow>
     getClientsByUserId b (filter (\<lambda>p. userId (snd p) \<noteq> a \<or> P p) cs) = getClientsByUserId b cs"
proof -
  assume "a \<noteq> b"
  then have "filter (\<lambda>p. userId (snd p) = b) (filter (\<lambda>p. userId (snd p) \<noteq> a \<or> P p) cs)
               = filter (\<lambda>p. userId (snd p) = b) cs"
    unfolding filter_filter by (intro filter_cong) auto
  then show ?thesis by (simp only: getClientsByUserId_entries)
qed

text \<open>
  Claim C7. Targeted addressing. For every registry and identities \<open>a\<close>, \<open>b\<close>,
  \<open>sendToUsers(n, [a, b], emit)\<close> calls the send primitive only on connections registered
  under \<open>a\<close> or \<open>b\<close>, never on one registered under another identity; this holds for
  every primitive that registers no connection itself, which covers the mocks and the
  gateway's \<open>emitToSocket\<close> (it only removes). An identity receives one send per live
  connection and an identity without connections none:
  \<^item> with a primitive that leaves the registry alone, the sends are the connections of \<open>a\<close>
    in registration order followed by those of \<open>b\<close>, and the ids returned are those among
    them for which the primitive returned normally;
  \<^item> through the gateway, on a registry as \<open>addClient\<close> and \<open>removeClient\<close> build it, the
    sends are the connections of \<open>a\<close> followed by those of \<open>b\<close> that are still registered
    (all of them when \<open>b\<close> is another identity), the ids returned are those whose socket
    could be sent to, and afterwards the registry has lost exactly the connections of
    \<open>a\<close> and \<open>b\<close> whose send failed.

  In the scenario registry (\<open>c1\<close> and \<open>c3\<close> under alice, \<open>c2\<close> under bob),
  \<open>sendToUsers(n, ['alice'], emit)\<close> sends to \<open>c1\<close> and \<open>c3\<close> and to no other, and the
  webhook reports \<open>deliveredTo = 2\<close>.
\<close>

theorem targeted_addressing:
  "((\<forall>sid d c. set (snd (emitFunction sid d c)) \<subseteq> set c) \<longrightarrow>
      (\<forall>sid \<in> fst ` set (emitCalls (sendToUsers toISOString n [a, b] emitFunction cs)).
         \<exists>client \<in> set (getConnectedClients cs).
           socketId client = sid \<and> (userId client = a \<or> userId client = b)))
   \<and> ((\<forall>sid d c. snd (emitFunction sid d c) = c) \<longrightarrow>
        map fst (emitCalls (sendToUsers toISOString n [a, b] emitFunction cs))
          = map socketId (getClientsByUserId a cs) @ map socketId (getClientsByUserId b cs)
        \<and> successfulSocketIds (sendToUsers toISOString n [a, b] emitFunction cs)
          = filter (\<lambda>sid. \<not> isl (fst (emitFunction sid
                                (transformToWebSocketDto toISOString n) cs)))
              (map socketId (getClientsByUserId a cs) @ map socketId (getClientsByUserId b cs)))
   \<and> (wf_clients cs \<longrightarrow>
        map fst (emitCalls (gateway_sendToUsers sockets toISOString n [a, b] cs))
          = map socketId (getClientsByUserId a cs)
            @ map socketId (getClientsByUserId b
                (filter (\<lambda>p. userId (snd p) \<noteq> a \<or> canSend sockets (fst p)) cs))
        \<and> successfulSocketIds (gateway_sendToUsers sockets toISOString n [a, b] cs)
          = filter (canSend sockets)
              (map fst (emitCalls (gateway_sendToUsers sockets toISOString n [a, b] cs)))
        \<and> connectedClients (gateway_sendToUsers sockets toISOString n [a, b] cs)
          = filter (\<lambda>p. canSend sockets (fst p)
                         \<or> (userId (snd p) \<noteq> a \<and> userId (snd p) \<noteq> b)) cs
        \<and> (a \<noteq> b \<longrightarrow>
             map fst (emitCalls (gateway_sendToUsers sockets toISOString n [a, b] cs))
               = map socketId (getClientsByUserId a cs)
                 @ map socketId (getClientsByUserId b cs)))
   \<and> map fst (emitCalls (sendToUsers epochISO scenarioNotification [''alice'']
        mockEmitFunction scenarioClients)) = [''c1'', ''c3'']
   \<and> successfulSocketIds (sendToUsers epochISO scenarioNotification [''alice'']
        mockEmitFunction scenarioClients) = [''c1'', ''c3'']
   \<and> response (receiveNotification healthySockets epochISO ''n1'' 0 aliceRequest
        scenarioClients)
       = Inr \<lparr>message = ''Notification received and processed successfully'',
              status = ''success'', notificationId = Some ''n1'',
              deliveryInfo = \<lparr>totalClients = 3, deliveredTo = 2, targetType = targeted,
                              targetUsers = Some [''alice'']\<rparr>\<rparr>"
proof (intro conjI impI)
  assume h: "\<forall>sid d c. set (snd (emitFunction sid d c)) \<subseteq> set c"
  from forEachUser_targets [OF h, of "transformToWebSocketDto toISOString n" "[a, b]"
         "\<lparr>successfulSocketIds = [], emitCalls = [], connectedClients = cs\<rparr>"]
  have sub: "fst ` set (emitCalls (sendToUsers toISOString n [a, b] emitFunction cs))
      \<subseteq> {socketId client | client. client \<in> snd ` set cs \<and> userId client \<in> set [a, b]}"
    by (simp add: sendToUsers_def Let_def)
  show "\<forall>sid \<in> fst ` set (emitCalls (sendToUsers toISOString n [a, b] emitFunction cs)).
         \<exists>client \<in> set (getConnectedClients cs).
           socketId client = sid \<and> (userId client = a \<or> userId client = b)"
  proof
    fix sid
    assume "sid \<in> fst ` set (emitCalls (sendToUsers toISOString n [a, b] emitFunction cs))"
    with sub obtain client where "client \<in> snd ` set cs" "sid = socketId client"
      "userId client \<in> set [a, b]" by blast
    then show "\<exists>client \<in> set (getConnectedClients cs).
           socketId client = sid \<and> (userId client = a \<or> userId client = b)"
      by (auto simp add: getConnectedClients_def)
  qed
next
  assume h: "\<forall>sid d c. snd (emitFunction sid d c) = c"
  from forEachUser_pure [OF h, of "transformToWebSocketDto toISOString n" "[a, b]"
         "\<lparr>successfulSocketIds = [], emitCalls = [], connectedClients = cs\<rparr>"]
  show "map fst (emitCalls (sendToUsers toISOString n [a, b] emitFunction cs))
          = map socketId (getClientsByUserId a cs) @ map socketId (getClientsByUserId b cs)"
    by (simp add: sendToUsers_def Let_def)
next
  assume h: "\<forall>sid d c. snd (emitFunction sid d c) = c"
  from forEachUser_pure_results [OF h, of "transformToWebSocketDto toISOString n" "[a, b]"
         "\<lparr>successfulSocketIds = [], emitCalls = [], connectedClients = cs\<rparr>"]
  show "successfulSocketIds (sendToUsers toISOString n [a, b] emitFunction cs)
          = filter (\<lambda>sid. \<not> isl (fst (emitFunction sid
                                (transformToWebSocketDto toISOString n) cs)))
              (map socketId (getClientsByUserId a cs) @ map socketId (getClientsByUserId b cs))"
    by (simp add: sendToUsers_def Let_def)
next
  assume "wf_clients cs"
  then show "map fst (emitCalls (gateway_sendToUsers sockets toISOString n [a, b] cs))
          = map socketId (getClientsByUserId a cs)
            @ map socketId (getClientsByUserId b
                (filter (\<lambda>p. userId (snd p) \<noteq> a \<or> canSend sockets (fst p)) cs))"
    by (rule gateway_two_identities(1))
next
  assume wf: "wf_clients cs"
  show "successfulSocketIds (gateway_sendToUsers sockets toISOString n [a, b] cs)
          = filter (canSend sockets)
              (map fst (emitCalls (gateway_sendToUsers sockets toISOString n [a, b] cs)))"
    by (simp only: gateway_two_identities(1) [OF wf] gateway_two_identities(2) [OF wf])
next
  assume "wf_clients cs"
  then show "connectedClients (gateway_sendToUsers sockets toISOString n [a, b] cs)
          = filter (\<lambda>p. canSend sockets (fst p)
                         \<or> (userId (snd p) \<noteq> a \<and> userId (snd p) \<noteq> b)) cs"
    by (rule gateway_two_identities(3))
next
  assume wf: "wf_clients cs" and ne: "a \<noteq> b"
  show "map fst (emitCalls (gateway_sendToUsers sockets toISOString n [a, b] cs))
               = map socketId (getClientsByUserId a cs)
                 @ map socketId (getClientsByUserId b cs)"
    using other_identity_untouched [OF ne, of "\<lambda>p. canSend sockets (fst p)" cs]
    by (simp only: gateway_two_identities(1) [OF wf])
next
  show "map fst (emitCalls (sendToUsers epochISO scenarioNotification [''alice'']
        mockEmitFunction scenarioClients)) = [''c1'', ''c3'']"
    by (simp add: eval_defs)
next
  show "successfulSocketIds (sendToUsers epochISO scenarioNotification [''alice'']
        mockEmitFunction scenarioClients) = [''c1'', ''c3'']"
    by (simp add: eval_defs)
next
  show "response (receiveNotification healthySockets epochISO ''n1'' 0 aliceRequest
        scenarioClients)
       = Inr \<lparr>message = ''Notification received and processed successfully'',
              status = ''success'', notificationId = Some ''n1'',
              deliveryInfo = \<lparr>totalClients = 3, deliveredTo = 2, targetType = targeted,
                              targetUsers = Some [''alice'']\<rparr>\<rparr>"
    by (simp add: eval_defs)
qed

theorem targeted_addressing_witness:
  "(\<forall>sid d c. set (snd (emitToSocket socketsBrokenC3 sid ''notification''
        (d :: unit WebSocketNotificationDto) c)) \<subseteq> set c)
   \<and> (\<forall>sid d c. snd (mockEmitFailingFor ''c1'' sid (d :: unit WebSocketNotificationDto) c) = c)
   \<and> wf_clients scenarioClients
   \<and> map fst (emitCalls (gateway_sendToUsers socketsBrokenC3 epochISO scenarioNotification
        [''alice'', ''bob''] scenarioClients)) = [''c1'', ''c3'', ''c2'']
   \<and> successfulSocketIds (gateway_sendToUsers socketsBrokenC3 epochISO scenarioNotification
        [''alice'', ''bob''] scenarioClients) = [''c1'', ''c2'']
   \<and> map fst (connectedClients (gateway_sendToUsers socketsBrokenC3 epochISO
        scenarioNotification [''alice'', ''bob''] scenarioClients)) = [''c1'', ''c2'']
   \<and> map fst (emitCalls (sendToUsers epochISO scenarioNotification [''alice'', ''bob'']
        (mockEmitFailingFor ''c1'') scenarioClients)) = [''c1'', ''c3'', ''c2'']
   \<and> successfulSocketIds (sendToUsers epochISO scenarioNotification [''alice'', ''bob'']
        (mockEmitFailingFor ''c1'') scenarioClients) = [''c3'', ''c2'']
   \<and> map socketId (getClientsByUserId ''alice'' scenarioClients) = [''c1'', ''c3'']
   \<and> map socketId (getClientsByUserId ''bob'' scenarioClients) = [''c2'']
   \<and> map socketId (getClientsByUserId ''carol'' scenarioClients) = []
   \<and> map fst (emitCalls (gateway_sendToUsers socketsBrokenC3 epochISO scenarioNotification
        [''carol'', ''bob''] scenarioClients)) = [''c2'']"
proof -
  have h1: "\<forall>sid d c. set (snd (emitToSocket socketsBrokenC3 sid ''notification''
        (d :: unit WebSocketNotificationDto) c)) \<subseteq> set c"
    by (simp add: emitToSocket_subset)
  have h2: "\<forall>sid d c. snd (mockEmitFailingFor ''c1'' sid
        (d :: unit WebSocketNotificationDto) c) = c"
    by (simp add: mockEmitFailingFor_def)
  have h3: "wf_clients scenarioClients"
    by (simp add: wf_clients_def scenarioClients_def addClient_def)
  have rest: "map fst (emitCalls (gateway_sendToUsers socketsBrokenC3 epochISO
        scenarioNotification [''alice'', ''bob''] scenarioClients)) = [''c1'', ''c3'', ''c2'']
   \<and> successfulSocketIds (gateway_sendToUsers socketsBrokenC3 epochISO scenarioNotification
        [''alice'', ''bob''] scenarioClients) = [''c1'', ''c2'']
   \<and> map fst (connectedClients (gateway_sendToUsers socketsBrokenC3 epochISO
        scenarioNotification [''alice'', ''bob''] scenarioClients)) = [''c1'', ''c2'']
   \<and> map fst (emitCalls (sendToUsers epochISO scenarioNotification [''alice'', ''bob'']
        (mockEmitFailingFor ''c1'') scenarioClients)) = [''c1'', ''c3'', ''c2'']
   \<and> successfulSocketIds (sendToUsers epochISO scenarioNotification [''alice'', ''bob'']
        (mockEmitFailingFor ''c1'') scenarioClients) = [''c3'', ''c2'']
   \<and> map socketId (getClientsByUserId ''alice'' scenarioClients) = [''c1'', ''c3'']
   \<and> map socketId (getClientsByUserId ''bob'' scenarioClients) = [''c2'']
   \<and> map socketId (getClientsByUserId ''carol'' scenarioClients) = []
   \<and> map fst (emitCalls (gateway_sendToUsers socketsBrokenC3 epochISO scenarioNotification
        [''carol'', ''bob''] scenarioClients)) = [''c2'']"
    using targeted_addressing
            [of "mockEmitFailingFor ''c1''" epochISO scenarioNotification "''alice''" "''bob''"
                scenarioClients socketsBrokenC3]
          targeted_addressing
            [of "\<lambda>s d. emitToSocket socketsBrokenC3 s ''notification'' d" epochISO
                scenarioNotification "''carol''" "''bob''" scenarioClients socketsBrokenC3]
    by (simp add: eval_defs)
  from h1 h2 h3 rest show ?thesis by simp
qed

lemma count_in_own_user:
  assumes "distinct (map socketId vs)" and "client \<in> set vs"
  shows "count_list (map socketId (filter (\<lambda>c. userId c = u) vs)) (socketId client)
           = (if userId client = u then 1 else 0)"
  using assms
proof (induction vs)
  case Nil
  then show ?case by simp
next
  case (Cons v vs)
  show ?case
  proof (cases "client = v")
    case True
    with Cons.prems have "socketId client \<notin> socketId ` set vs" by auto
    then have "count_list (map socketId (filter (\<lambda>c. userId c = u) vs)) (socketId client) = 0"
      by (auto simp add: count_list_0_iff)
    with True show ?thesis by simp
  next
    case False
    with Cons.prems have "client \<in> set vs" "socketId v \<noteq> socketId client" by auto
    with Cons show ?thesis by simp
  qed
qed

lemma count_concat_scaled:
  assumes "\<And>u'. count_list (f u') x = (if u' = u then k else 0)"
  shows "count_list (concat (map f us)) x = k * count_list us u"
  using assms by (induction us) simp_all

lemma length_filter_or:
  "\<not> P x \<Longrightarrow> length (filter (\<lambda>s. s = x \<or> P s) xs) = count_list xs x + length (filter P xs)"
  by (induction xs) auto

lemma length_filter_members:
  "distinct ms \<Longrightarrow> length (filter (\<lambda>s. s \<in> set ms) xs) = sum_list (map (count_list xs) ms)"
proof (induction ms)
  case Nil
  show ?case by simp
next
  case (Cons m ms)
  then have "m \<notin> set ms" by simp
  from length_filter_or [of "\<lambda>s. s \<in> set ms" m xs, OF this] Cons show ?case by simp
qed

lemma sum_list_const:
  "(\<And>x. x \<in> set xs \<Longrightarrow> f x = (c::nat)) \<Longrightarrow> sum_list (map f xs) = c * length xs"
  by (induction xs) simp_all

lemma count_list_filter: "count_list (filter P xs) x = (if P x then count_list xs x else 0)"
  by (induction xs) auto

lemma count_own_socket:
  assumes "wf_clients cs" and "p \<in> set cs"
  shows "count_list (map socketId (getClientsByUserId u cs)) (fst p)
           = (if userId (snd p) = u then 1 else 0)"
proof -
  from assms have sock: "socketId (snd p) = fst p"
    by (simp add: wf_clients_def list_all_iff)
  from assms(2) have mem: "snd p \<in> set (map snd cs)" by simp
  from count_in_own_user [OF wf_socketIds_distinct [OF assms(1)] mem, of u] sock
  show ?thesis by (simp add: getClientsByUserId_def)
qed

text \<open>A socket id that is not registered gets no send from the gateway.\<close>

lemma gateway_unregistered:
  assumes "sid \<notin> socketId ` snd ` set (connectedClients st)"
  shows "count_list (map fst (emitCalls
            (forEachUser (\<lambda>s d. emitToSocket sockets s ev d) dto us st))) sid
           = count_list (map fst (emitCalls st)) sid
       \<and> count_list (successfulSocketIds
            (forEachUser (\<lambda>s d. emitToSocket sockets s ev d) dto us st)) sid
           = count_list (successfulSocketIds st) sid"
  using assms
proof (induction us arbitrary: st)
  case Nil
  show ?case by simp
next
  case (Cons u us)
  let ?gw = "\<lambda>s d. emitToSocket sockets s ev d"
  let ?ids = "map socketId (getClientsByUserId u (connectedClients st))"
  let ?st' = "emitEach ?gw dto ?ids st"
  from Cons.prems have absent: "sid \<notin> set ?ids"
    by (auto simp add: getClientsByUserId_def)
  have "set (connectedClients ?st') \<subseteq> set (connectedClients st)"
    by (rule emitEach_subset) (simp add: emitToSocket_subset)
  with Cons.prems have "sid \<notin> socketId ` snd ` set (connectedClients ?st')" by auto
  from Cons.IH [OF this] absent show ?case
    by (simp add: Let_def emitEach_calls emitEach_gateway_all comp_def count_list_filter
          count_list_0_iff)
qed

text \<open>
  How often the gateway sends to a registered connection, and how often the service
  reports it: as often as its identity is listed while its socket can be sent to, once
  and unreported when it cannot (the first failure evicts it).
\<close>

lemma gateway_counts:
  assumes "wf_clients (connectedClients st)" and "p \<in> set (connectedClients st)"
  shows "count_list (map fst (emitCalls
            (forEachUser (\<lambda>s d. emitToSocket sockets s ev d) dto us st))) (fst p)
           = count_list (map fst (emitCalls st)) (fst p)
             + (if canSend sockets (fst p) then count_list us (userId (snd p))
                else if userId (snd p) \<in> set us then 1 else 0)
       \<and> count_list (successfulSocketIds
            (forEachUser (\<lambda>s d. emitToSocket sockets s ev d) dto us st)) (fst p)
           = count_list (successfulSocketIds st) (fst p)
             + (if canSend sockets (fst p) then count_list us (userId (snd p)) else 0)"
  using assms
proof (induction us arbitrary: st)
  case Nil
  show ?case by simp
next
  case (Cons u us)
  let ?gw = "\<lambda>s d. emitToSocket sockets s ev d"
  let ?cs = "connectedClients st"
  let ?ids = "map socketId (getClientsByUserId u ?cs)"
  let ?st' = "emitEach ?gw dto ?ids st"
  let ?cs' = "filter (\<lambda>q. userId (snd q) \<noteq> u \<or> canSend sockets (fst q)) ?cs"
  have cs': "connectedClients ?st' = ?cs'"
    using Cons.prems(1) by (rule gateway_turn)
  have wf': "wf_clients (connectedClients ?st')"
    unfolding cs' using Cons.prems(1) by (rule wf_clients_filter)
  have own: "count_list ?ids (fst p) = (if userId (snd p) = u then 1 else 0)"
    using Cons.prems by (rule count_own_socket)
  have calls': "count_list (map fst (emitCalls ?st')) (fst p)
                  = count_list (map fst (emitCalls st)) (fst p)
                    + (if userId (snd p) = u then 1 else 0)"
    by (simp add: emitEach_calls comp_def own)
  have succ': "count_list (successfulSocketIds ?st') (fst p)
                  = count_list (successfulSocketIds st) (fst p)
                    + (if canSend sockets (fst p) \<and> userId (snd p) = u then 1 else 0)"
    by (simp add: emitEach_gateway_all count_list_filter own)
  have step: "forEachUser ?gw dto (u # us) st = forEachUser ?gw dto us ?st'"
    by (simp add: Let_def)
  show ?case
  proof (cases "userId (snd p) \<noteq> u \<or> canSend sockets (fst p)")
    case True
    with Cons.prems(2) have "p \<in> set (connectedClients ?st')" by (simp add: cs')
    from Cons.IH [OF wf' this] True show ?thesis
      unfolding step calls' succ' by auto
  next
    case False
    then have u: "userId (snd p) = u" and dead: "\<not> canSend sockets (fst p)" by simp_all
    have "fst p \<notin> socketId ` snd ` set (connectedClients ?st')"
    proof
      assume "fst p \<in> socketId ` snd ` set (connectedClients ?st')"
      then have "fst p \<in> socketId ` snd ` set ?cs'" by (simp only: cs')
      then obtain q where q: "q \<in> set ?cs'" "socketId (snd q) = fst p" by force
      then have qin: "q \<in> set ?cs" by simp
      with Cons.prems(1) have "socketId (snd q) = fst q"
        by (simp add: wf_clients_def list_all_iff)
      with q(2) have "fst q = fst p" by simp
      moreover from Cons.prems(1) have "distinct (map fst ?cs)" by (simp add: wf_clients_def)
      ultimately have "q = p" using qin Cons.prems(2)
        by (metis eq_key_imp_eq_value prod.collapse)
      with q(1) False show False by simp
    qed
    from gateway_unregistered [OF this, of sockets ev dto us] u dead show ?thesis
      unfolding step calls' succ' by simp
  qed
qed

text \<open>
  Claim C9, as stated, fails. Alice is listed twice and has the two live connections
  \<open>c1\<close> and \<open>c3\<close>. Through the gateway, with the socket of \<open>c3\<close> gone, the send primitive
  is called three times, not four (the failed \<open>c3\<close> is evicted and not tried again), and
  \<open>c3\<close> is not in the returned list at all. With the throwing mock of the service's test
  failing for \<open>c1\<close>, the returned list has \<open>c3\<close> twice and \<open>c1\<close> not at all.
\<close>

theorem duplicate_identity_counterexample:
  "count_list [''alice'', ''alice''] ''alice'' = 2
   \<and> map socketId (getClientsByUserId ''alice'' scenarioClients) = [''c1'', ''c3'']
   \<and> map fst (emitCalls (gateway_sendToUsers socketsWithoutC3 epochISO scenarioNotification
        [''alice'', ''alice''] scenarioClients)) = [''c1'', ''c3'', ''c1'']
   \<and> successfulSocketIds (gateway_sendToUsers socketsWithoutC3 epochISO scenarioNotification
        [''alice'', ''alice''] scenarioClients) = [''c1'', ''c1'']
   \<and> successfulSocketIds (sendToUsers epochISO scenarioNotification [''alice'', ''alice'']
        (mockEmitFailingFor ''c1'') scenarioClients) = [''c3'', ''c3'']"
  by (simp add: eval_defs)

text \<open>
  Claim C9, amended. \<open>sendToUsers\<close> does not deduplicate the list of identities. Let \<open>u\<close>
  occur twice in \<open>userIds\<close> and have \<open>m\<close> live connections, in a registry as \<open>addClient\<close>
  and \<open>removeClient\<close> build it. With a send primitive that leaves the registry alone,
  the primitive is called twice for each connection of \<open>u\<close>, \<open>2 * m\<close> times in all, and a
  connection id of \<open>u\<close> is twice in the returned list when its send returns normally and
  not at all when it throws. Through the gateway, a connection of \<open>u\<close> whose socket can
  be sent to is sent to twice and is twice in the returned list; one whose send fails is
  evicted at the first attempt, so it is sent to once and is not returned.
\<close>

theorem duplicates_not_removed:
  assumes "wf_clients cs" and "count_list userIds u = 2"
  shows "((\<forall>sid d c. snd (emitFunction sid d c) = c) \<longrightarrow>
           (\<forall>client \<in> set (getClientsByUserId u cs).
              count_list (map fst (emitCalls
                  (sendToUsers toISOString n userIds emitFunction cs))) (socketId client) = 2
              \<and> count_list (successfulSocketIds
                  (sendToUsers toISOString n userIds emitFunction cs)) (socketId client)
                = (if isl (fst (emitFunction (socketId client)
                                 (transformToWebSocketDto toISOString n) cs)) then 0 else 2))
           \<and> length (filter (\<lambda>s. s \<in> set (map socketId (getClientsByUserId u cs)))
                (map fst (emitCalls (sendToUsers toISOString n userIds emitFunction cs))))
               = 2 * length (getClientsByUserId u cs))
       \<and> (\<forall>client \<in> set (getClientsByUserId u cs).
              count_list (map fst (emitCalls
                  (gateway_sendToUsers sockets toISOString n userIds cs))) (socketId client)
                = (if canSend sockets (socketId client) then 2 else 1)
              \<and> count_list (successfulSocketIds
                  (gateway_sendToUsers sockets toISOString n userIds cs)) (socketId client)
                = (if canSend sockets (socketId client) then 2 else 0))"
proof (intro conjI impI)
  let ?ids = "\<lambda>u. map socketId (getClientsByUserId u cs)"
  let ?st = "\<lparr>successfulSocketIds = [], emitCalls = [], connectedClients = cs\<rparr> :: 'a Delivery"
  let ?dto = "transformToWebSocketDto toISOString n"
  let ?ok = "\<lambda>s. \<not> isl (fst (emitFunction s ?dto cs))"
  assume pure: "\<forall>sid d c. snd (emitFunction sid d c) = c"
  have calls: "map fst (emitCalls (sendToUsers toISOString n userIds emitFunction cs))
                 = concat (map ?ids userIds)"
    using forEachUser_pure [OF pure, of ?dto userIds ?st] by (simp add: sendToUsers_def Let_def)
  have succ: "successfulSocketIds (sendToUsers toISOString n userIds emitFunction cs)
                 = concat (map (\<lambda>u. filter ?ok (?ids u)) userIds)"
    using forEachUser_pure_results [OF pure, of ?dto userIds ?st]
    by (simp add: sendToUsers_def Let_def)
  have dist: "distinct (map socketId (map snd cs))"
    using assms(1) by (rule wf_socketIds_distinct)
  have one: "count_list (?ids u') (socketId client) = (if u' = u then 1 else 0)"
    if "client \<in> set (getClientsByUserId u cs)" for client u'
  proof -
    from that have mem: "client \<in> set (map snd cs)" and own: "userId client = u"
      by (simp_all add: getClientsByUserId_def)
    from count_in_own_user [OF dist mem, of u'] own show ?thesis
      by (auto simp add: getClientsByUserId_def)
  qed
  have twice: "count_list (concat (map ?ids userIds)) (socketId client) = 2"
    if "client \<in> set (getClientsByUserId u cs)" for client
    using count_concat_scaled [of ?ids "socketId client" u 1 userIds] one [OF that] assms(2)
    by simp
  have reported: "count_list (concat (map (\<lambda>u. filter ?ok (?ids u)) userIds)) (socketId client)
                    = (if isl (fst (emitFunction (socketId client) ?dto cs)) then 0 else 2)"
    if "client \<in> set (getClientsByUserId u cs)" for client
    using count_concat_scaled [of "\<lambda>u. filter ?ok (?ids u)" "socketId client" u
            "if ?ok (socketId client) then 1 else 0" userIds] one [OF that] assms(2)
    by (simp add: count_list_filter)
  show "\<forall>client \<in> set (getClientsByUserId u cs).
              count_list (map fst (emitCalls
                  (sendToUsers toISOString n userIds emitFunction cs))) (socketId client) = 2
              \<and> count_list (successfulSocketIds
                  (sendToUsers toISOString n userIds emitFunction cs)) (socketId client)
                = (if isl (fst (emitFunction (socketId client) ?dto cs)) then 0 else 2)"
    using twice reported by (simp add: calls succ)
  have dist_u: "distinct (?ids u)"
    using dist by (simp add: getClientsByUserId_def distinct_map_filter)
  have "length (filter (\<lambda>s. s \<in> set (?ids u)) (concat (map ?ids userIds)))
          = sum_list (map (count_list (concat (map ?ids userIds))) (?ids u))"
    using dist_u by (rule length_filter_members)
  also have "\<dots> = 2 * length (?ids u)"
    by (rule sum_list_const) (use twice in auto)
  finally show "length (filter (\<lambda>s. s \<in> set (?ids u))
                (map fst (emitCalls (sendToUsers toISOString n userIds emitFunction cs))))
               = 2 * length (getClientsByUserId u cs)"
    by (simp add: calls)
next
  let ?st = "\<lparr>successfulSocketIds = [], emitCalls = [], connectedClients = cs\<rparr> :: 'a Delivery"
  let ?dto = "transformToWebSocketDto toISOString n"
  have run: "gateway_sendToUsers sockets toISOString n userIds cs
               = forEachUser (\<lambda>s d. emitToSocket sockets s ''notification'' d) ?dto userIds ?st"
    by (simp add: gateway_sendToUsers_def sendToUsers_def Let_def)
  from assms(2) have listed: "u \<in> set userIds"
    by (metis count_list_0_iff zero_neq_numeral)
  show "\<forall>client \<in> set (getClientsByUserId u cs).
              count_list (map fst (emitCalls
                  (gateway_sendToUsers sockets toISOString n userIds cs))) (socketId client)
                = (if canSend sockets (socketId client) then 2 else 1)
              \<and> count_list (successfulSocketIds
                  (gateway_sendToUsers sockets toISOString n userIds cs)) (socketId client)
                = (if canSend sockets (socketId client) then 2 else 0)"
  proof
    fix client assume "client \<in> set (getClientsByUserId u cs)"
    then obtain p where p: "p \<in> set cs" "snd p = client" "userId (snd p) = u"
      by (auto simp add: getClientsByUserId_entries)
    with assms(1) have key: "fst p = socketId client"
      by (auto simp add: wf_clients_def list_all_iff)
    from gateway_counts [of ?st p sockets "''notification''" ?dto userIds] assms p(1,3) listed
    show "count_list (map fst (emitCalls
                  (gateway_sendToUsers sockets toISOString n userIds cs))) (socketId client)
                = (if canSend sockets (socketId client) then 2 else 1)
              \<and> count_list (successfulSocketIds
                  (gateway_sendToUsers sockets toISOString n userIds cs)) (socketId client)
                = (if canSend sockets (socketId client) then 2 else 0)"
      by (simp add: run key)
  qed
qed

theorem duplicates_not_removed_witness:
  "wf_clients scenarioClients
   \<and> count_list [''alice'', ''bob'', ''alice''] ''alice'' = 2
   \<and> (\<forall>sid d c. snd (mockEmitFailingFor ''c3'' sid (d :: unit WebSocketNotificationDto) c) = c)
   \<and> map socketId (getClientsByUserId ''alice'' scenarioClients) = [''c1'', ''c3'']
   \<and> map fst (emitCalls (sendToUsers epochISO scenarioNotification
        [''alice'', ''bob'', ''alice''] (mockEmitFailingFor ''c3'') scenarioClients))
       = [''c1'', ''c3'', ''c2'', ''c1'', ''c3'']
   \<and> successfulSocketIds (sendToUsers epochISO scenarioNotification
        [''alice'', ''bob'', ''alice''] (mockEmitFailingFor ''c3'') scenarioClients)
       = [''c1'', ''c2'', ''c1'']
   \<and> map fst (emitCalls (gateway_sendToUsers socketsBrokenC3 epochISO scenarioNotification
        [''alice'', ''bob'', ''alice''] scenarioClients))
       = [''c1'', ''c3'', ''c2'', ''c1'']
   \<and> successfulSocketIds (gateway_sendToUsers socketsBrokenC3 epochISO scenarioNotification
        [''alice'', ''bob'', ''alice''] scenarioClients)
       = [''c1'', ''c2'', ''c1'']"
proof -
  have h: "\<forall>sid d c. snd (mockEmitFailingFor ''c3'' sid
        (d :: unit WebSocketNotificationDto) c) = c"
    by (simp add: mockEmitFailingFor_def)
  have rest: "wf_clients scenarioClients
   \<and> count_list [''alice'', ''bob'', ''alice''] ''alice'' = 2
   \<and> map socketId (getClientsByUserId ''alice'' scenarioClients) = [''c1'', ''c3'']
   \<and> map fst (emitCalls (sendToUsers epochISO scenarioNotification
        [''alice'', ''bob'', ''alice''] (mockEmitFailingFor ''c3'') scenarioClients))
       = [''c1'', ''c3'', ''c2'', ''c1'', ''c3'']
   \<and> successfulSocketIds (sendToUsers epochISO scenarioNotification
        [''alice'', ''bob'', ''alice''] (mockEmitFailingFor ''c3'') scenarioClients)
       = [''c1'', ''c2'', ''c1'']
   \<and> map fst (emitCalls (gateway_sendToUsers socketsBrokenC3 epochISO scenarioNotification
        [''alice'', ''bob'', ''alice''] scenarioClients))
       = [''c1'', ''c3'', ''c2'', ''c1'']
   \<and> successfulSocketIds (gateway_sendToUsers socketsBrokenC3 epochISO scenarioNotification
        [''alice'', ''bob'', ''alice''] scenarioClients)
       = [''c1'', ''c2'', ''c1'']"
    using duplicates_not_removed
          [of scenarioClients "[''alice'', ''bob'', ''alice'']" "''alice''"
              "mockEmitFailingFor ''c3''" epochISO scenarioNotification socketsBrokenC3]
    by (simp add: eval_defs wf_clients_def)
  from h rest show ?thesis by simp
qed

subsection \<open>Wire format\<close>

text \<open>
  Claim C8. Wire format. Every payload handed to the send primitive for a notification
  that came in through the webhook is the record of exactly the fields \<open>id\<close>, \<open>type\<close>,
  \<open>message\<close>, \<open>data\<close>, \<open>priority\<close>, \<open>timestamp\<close>, \<open>source\<close>, where \<open>id\<close> is the generated
  identifier, \<open>timestamp\<close> is \<open>toISOString\<close> of the creation time, \<open>source\<close> is \<open>webhook\<close>,
  and \<open>data\<close> is the producer's \<open>data\<close> as it came: absent when the producer left it out.
\<close>

theorem wire_format_of_webhook_notifications:
  "\<forall>call \<in> set (sends (receiveNotification sockets toISOString uuid now w cs)).
     snd call = \<lparr>ws_id = uuid, ws_type = wh_type w, ws_message = wh_message w,
                 ws_data = wh_data w, ws_priority = or_default (wh_priority w) ''normal'',
                 ws_timestamp = toISOString now, ws_source = ''webhook''\<rparr>"
proof -
  let ?dto = "transformToWebSocketDto toISOString (processWebhookNotification uuid now w)"
  let ?st = "\<lparr>successfulSocketIds = [], emitCalls = [], connectedClients = cs\<rparr> :: 'a Delivery"
  have dto: "?dto = \<lparr>ws_id = uuid, ws_type = wh_type w, ws_message = wh_message w,
                 ws_data = wh_data w, ws_priority = or_default (wh_priority w) ''normal'',
                 ws_timestamp = toISOString now, ws_source = ''webhook''\<rparr>"
    by (simp add: transformToWebSocketDto_def processWebhookNotification_def)
  have b: "snd ` set (emitCalls (sendToAll sockets toISOString
              (processWebhookNotification uuid now w) cs)) \<subseteq> {?dto}"
    by (auto simp add: sendToAll_def broadcastNotification_def Let_def emitEach_calls)
  have t: "snd ` set (emitCalls (gateway_sendToUsers sockets toISOString
              (processWebhookNotification uuid now w) us cs)) \<subseteq> {?dto}" for us
    using forEachUser_dto [of _ ?dto us ?st]
    by (simp add: gateway_sendToUsers_def sendToUsers_def Let_def)
  have "snd ` set (sends (receiveNotification sockets toISOString uuid now w cs)) \<subseteq> {?dto}"
    using b t by (simp add: receiveNotification_def Let_def)
  then show ?thesis unfolding dto by blast
qed

theorem wire_format_of_webhook_notifications_witness:
  "map fst (sends (receiveNotification socketsWithoutC3 epochISO ''n1'' 0 aliceRequest
      scenarioClients)) = [''c1'', ''c3'']
   \<and> map snd (sends (receiveNotification socketsWithoutC3 epochISO ''n1'' 0 aliceRequest
      scenarioClients)) = [scenarioDto, scenarioDto]
   \<and> ws_data scenarioDto = None \<and> wh_data aliceRequest = None"
  using wire_format_of_webhook_notifications
          [of socketsWithoutC3 epochISO "''n1''" 0 aliceRequest scenarioClients]
  by (simp add: eval_defs)

subsection \<open>Connecting\<close>

lemma extractToken_truthy: "extractToken client = Some t \<Longrightarrow> t \<noteq> []"
  by (auto simp add: extractToken_def Let_def truthy_def split: if_splits option.splits)

lemma handleConnection_rejects:
  assumes "extractToken client = None
      \<or> (\<exists>token. extractToken client = Some token
            \<and> (isl (verify token) \<or> verify token = Inr None
                \<or> (\<exists>payload. verify token = Inr (Some payload) \<and> \<not> truthy (jwt_id payload))))"
  shows "handleConnection verify toISOString now client cs
            = (authenticationRequired toISOString now client, cs)"
  using assms
  by (auto simp add: handleConnection_def split: option.splits sum.splits)

lemma handleConnection_cases:
  "(\<exists>token payload uid.
            extractToken client = Some token \<and> verify token = Inr (Some payload)
            \<and> jwt_id payload = Some uid \<and> uid \<noteq> []
            \<and> snd (handleConnection verify toISOString now client cs)
                = addClient now uid (client_id client) cs)
       \<or> handleConnection verify toISOString now client cs
            = (authenticationRequired toISOString now client, cs)"
proof (cases "extractToken client")
  case None
  then show ?thesis by (simp add: handleConnection_def)
next
  case (Some token)
  show ?thesis
  proof (cases "verify token")
    case (Inl e)
    with Some show ?thesis by (simp add: handleConnection_def)
  next
    case (Inr r)
    show ?thesis
    proof (cases r)
      case None
      with Some Inr show ?thesis by (simp add: handleConnection_def)
    next
      case (Some payload)
      show ?thesis
      proof (cases "truthy (jwt_id payload)")
        case False
        with \<open>extractToken client = Some token\<close> Inr Some show ?thesis
          by (simp add: handleConnection_def)
      next
        case True
        then obtain uid where "jwt_id payload = Some uid" "uid \<noteq> []"
          by (auto simp add: truthy_def split: option.splits)
        with True \<open>extractToken client = Some token\<close> Inr Some show ?thesis
          by (simp add: handleConnection_def Let_def)
      qed
    qed
  qed
qed

text \<open>
  Claim C10. A connection is registered only with a verified identity. If no token can
  be extracted from the handshake, or \<open>verify\<close> throws, or it returns no payload or a
  payload without \<open>id\<close>, \<open>handleConnection\<close> emits the \<open>error\<close> event with code
  \<open>AUTHENTICATION_REQUIRED\<close>, disconnects the socket with \<open>disconnect(true)\<close> and leaves
  the registry unchanged. In every other case a token was extracted, \<open>verify\<close> returned
  a payload with a non-empty \<open>id\<close>, and the registry afterwards is \<open>addClient\<close> of that id
  and the socket's id: no other identity, and no sentinel, is ever registered.
\<close>

theorem registered_only_when_verified:
  "(extractToken client = None
      \<or> (\<exists>token. extractToken client = Some token
            \<and> (isl (verify token) \<or> verify token = Inr None
                \<or> (\<exists>payload. verify token = Inr (Some payload) \<and> \<not> truthy (jwt_id payload))))
      \<longrightarrow> handleConnection verify toISOString now client cs
            = ([Emit ''error''
                  [(''message'', JString ''Connection failed''),
                   (''socketId'', JString (client_id client)),
                   (''timestamp'', JString (toISOString now)),
                   (''code'', JString ''AUTHENTICATION_REQUIRED'')],
                Disconnect True], cs))
   \<and> (snd (handleConnection verify toISOString now client cs) \<noteq> cs
      \<longrightarrow> (\<exists>token payload uid.
            extractToken client = Some token \<and> verify token = Inr (Some payload)
            \<and> jwt_id payload = Some uid \<and> uid \<noteq> []
            \<and> snd (handleConnection verify toISOString now client cs)
                = addClient now uid (client_id client) cs))
   \<and> ((\<exists>token payload uid.
            extractToken client = Some token \<and> verify token = Inr (Some payload)
            \<and> jwt_id payload = Some uid \<and> uid \<noteq> []
            \<and> snd (handleConnection verify toISOString now client cs)
                = addClient now uid (client_id client) cs)
       \<or> handleConnection verify toISOString now client cs
            = (authenticationRequired toISOString now client, cs))"
proof (intro conjI impI)
  assume "extractToken client = None
      \<or> (\<exists>token. extractToken client = Some token
            \<and> (isl (verify token) \<or> verify token = Inr None
                \<or> (\<exists>payload. verify token = Inr (Some payload) \<and> \<not> truthy (jwt_id payload))))"
  then have "handleConnection verify toISOString now client cs
            = (authenticationRequired toISOString now client, cs)"
    by (rule handleConnection_rejects)
  then show "handleConnection verify toISOString now client cs
            = ([Emit ''error''
                  [(''message'', JString ''Connection failed''),
                   (''socketId'', JString (client_id client)),
                   (''timestamp'', JString (toISOString now)),
                   (''code'', JString ''AUTHENTICATION_REQUIRED'')],
                Disconnect True], cs)"
    by (simp add: authenticationRequired_def)
next
  assume "snd (handleConnection verify toISOString now client cs) \<noteq> cs"
  with handleConnection_cases [of client verify toISOString now cs]
  show "\<exists>token payload uid.
            extractToken client = Some token \<and> verify token = Inr (Some payload)
            \<and> jwt_id payload = Some uid \<and> uid \<noteq> []
            \<and> snd (handleConnection verify toISOString now client cs)
                = addClient now uid (client_id client) cs"
    by auto
next
  show "(\<exists>token payload uid.
            extractToken client = Some token \<and> verify token = Inr (Some payload)
            \<and> jwt_id payload = Some uid \<and> uid \<noteq> []
            \<and> snd (handleConnection verify toISOString now client cs)
                = addClient now uid (client_id client) cs)
       \<or> handleConnection verify toISOString now client cs
            = (authenticationRequired toISOString now client, cs)"
    by (rule handleConnection_cases)
qed

theorem registered_only_when_verified_witness:
  "extractToken (clientWith None) = None
   \<and> snd (handleConnection verifyStub epochISO 0 (clientWith None) scenarioClients)
       = scenarioClients
   \<and> extractToken (clientWith (Some ''Bearer expired'')) = Some ''expired''
   \<and> isl (verifyStub ''expired'')
   \<and> handleConnection verifyStub epochISO 0 (clientWith (Some ''Bearer expired''))
        scenarioClients
       = ([Emit ''error''
             [(''message'', JString ''Connection failed''),
              (''socketId'', JString ''c9''),
              (''timestamp'', JString ''1970-01-01T00:00:00.000Z''),
              (''code'', JString ''AUTHENTICATION_REQUIRED'')],
           Disconnect True], scenarioClients)
   \<and> snd (handleConnection verifyStub epochISO 0 (clientWith (Some ''Bearer noid''))
        scenarioClients) = scenarioClients
   \<and> map fst (snd (handleConnection verifyStub epochISO 0 (clientWith (Some ''Bearer good''))
        scenarioClients)) = [''c1'', ''c2'', ''c3'', ''c9'']
   \<and> getClientsByUserId ''alice''
        (snd (handleConnection verifyStub epochISO 0 (clientWith (Some ''Bearer good''))
           scenarioClients))
       = [\<lparr>socketId = ''c1'', userId = ''alice'', connectedAt = 0\<rparr>,
          \<lparr>socketId = ''c3'', userId = ''alice'', connectedAt = 0\<rparr>,
          \<lparr>socketId = ''c9'', userId = ''alice'', connectedAt = 0\<rparr>]"
  using registered_only_when_verified [of "clientWith None" verifyStub epochISO 0 scenarioClients]
        registered_only_when_verified
          [of "clientWith (Some ''Bearer expired'')" verifyStub epochISO 0 scenarioClients]
        registered_only_when_verified
          [of "clientWith (Some ''Bearer noid'')" verifyStub epochISO 0 scenarioClients]
        registered_only_when_verified
          [of "clientWith (Some ''Bearer good'')" verifyStub epochISO 0 scenarioClients]
  by (simp add: eval_defs handleConnection_def extractToken_def truthy_def verifyStub_def
        clientWith_def authenticationRequired_def)

end
